theory Spec2Isabelle
  imports Main "HOL-Library.Word" "HOL-Library.Signed_Division"
begin

unbundle bit_operations_syntax

section \<open>Data model of the user interface (ui.h)\<close>

datatype FeatureMode =
  FEAT_MODE_FREE | FEAT_MODE_QUAD | FEAT_MODE_PHASE | FEAT_MODE_DIVIDE | FEAT_MODE_LAST

datatype UiMode =
  UI_MODE_SPLASH | UI_MODE_NORMAL | UI_MODE_ZOOM | UI_MODE_RANDOM_WAVEFORM_SELECT
  | UI_MODE_SPLASH_FOR_RANDOM_WAVEFORM_SELECT

datatype WaveBank = BANK_CLASSIC | BANK_RANDOM | BANK_LAST

text \<open>The integer value of a \<open>FeatureMode\<close> enumerator and the cast back, as used by
  \<^verbatim>\<open>static_cast<FeatureMode>((feat_mode_ + 1) % FEAT_MODE_LAST)\<close>.\<close>

fun feat_mode_to_nat :: "FeatureMode \<Rightarrow> nat" where
  "feat_mode_to_nat FEAT_MODE_FREE = 0"
| "feat_mode_to_nat FEAT_MODE_QUAD = 1"
| "feat_mode_to_nat FEAT_MODE_PHASE = 2"
| "feat_mode_to_nat FEAT_MODE_DIVIDE = 3"
| "feat_mode_to_nat FEAT_MODE_LAST = 4"

definition feat_mode_of_nat :: "nat \<Rightarrow> FeatureMode" where
  "feat_mode_of_nat n =
     (if n = 0 then FEAT_MODE_FREE else if n = 1 then FEAT_MODE_QUAD
      else if n = 2 then FEAT_MODE_PHASE else if n = 3 then FEAT_MODE_DIVIDE
      else FEAT_MODE_LAST)"

text \<open>Modelled from the spec: the events of the ordered channel between \<open>Poll\<close> and
  \<open>DoEvents\<close> (the event queue of stmlib is not among the sources). \<open>control_id\<close> is an
  unsigned index, \<open>data\<close> the signed 32-bit payload; the queue is a list, appended to at
  the end and drained from the front.\<close>

datatype ControlType = CONTROL_POT | CONTROL_SWITCH

record Event =
  control_type :: ControlType
  control_id :: nat
  data :: int

text \<open>Modelled from the spec: the debounced switch driver (\<open>drivers/switches.h\<close>, not
  among the sources), as \<open>Poll\<close> and the accessors read it.\<close>

record Switches =
  just_pressed :: "nat \<Rightarrow> bool"
  pressed :: "nat \<Rightarrow> bool"
  released :: "nat \<Rightarrow> bool"

text \<open>The block handed to the storage: \<open>SETTINGS_SIZE\<close> bytes starting at \<open>feat_mode_\<close>.
  The members from there on are, in the order of their declaration, \<open>feat_mode_\<close>,
  \<open>padding\<close>, \<open>bank_\<close>, \<open>classic_waveform_index_\<close>, \<open>random_waveform_index_\<close>,
  \<open>pot_fine_value_\<close>, \<open>pot_level_value_\<close>, \<open>pot_atten_value_\<close> and
  \<open>pot_phase_value_\<close>. \<open>SETTINGS_SIZE\<close> sums the sizes of all of them but
  \<open>classic_waveform_index_\<close> (four bytes), so the block covers
  \<open>classic_waveform_index_\<close> and ends four bytes before the end of \<open>pot_phase_value_\<close>:
  the values of channels 2 and 3 of \<open>pot_phase_value_\<close> are outside it. An image is the
  members the block covers; the phase values are a partial array. The bytes themselves
  (width of an enumeration, alignment gaps) are not in the sources; a gap would end the
  block earlier still, inside the value of channel 1.\<close>

record Settings =
  set_feat_mode :: FeatureMode
  set_bank :: "nat \<Rightarrow> WaveBank"
  set_classic_waveform_index :: "nat \<Rightarrow> int"
  set_random_waveform_index :: "nat \<Rightarrow> nat"
  set_pot_fine_value :: "nat \<Rightarrow> 16 word"
  set_pot_phase_value :: "nat \<rightharpoonup> 16 word"
  set_pot_level_value :: "nat \<Rightarrow> 16 word"
  set_pot_atten_value :: "nat \<Rightarrow> 16 word"

text \<open>The members of class \<open>Ui\<close>. Arrays of four are functions on the index; an access
  whose index is computed from data is checked against the array length where it happens.
  \<open>storage\<close> is the file-level storage object, \<open>None\<close> while it holds no valid image.\<close>

record Ui =
  pot_value :: "nat \<Rightarrow> 16 word"
  pot_filtered_value :: "nat \<Rightarrow> 16 word"
  pot_coarse_value :: "nat \<Rightarrow> 16 word"
  last_touched_pot :: nat
  press_time :: "nat \<Rightarrow> 32 word"
  detect_very_long_press :: "nat \<Rightarrow> bool"
  detect_clear_settings_long_press :: "nat \<Rightarrow> bool"
  catchup_state :: "nat \<Rightarrow> bool"
  animation_counter :: int
  queue :: "Event list"
  leds :: "nat \<Rightarrow> bool"
  switches :: Switches
  mode :: UiMode
  feat_mode :: FeatureMode
  bank :: "nat \<Rightarrow> WaveBank"
  classic_waveform_index :: "nat \<Rightarrow> int"
  random_waveform_index :: "nat \<Rightarrow> nat"
  pot_fine_value :: "nat \<Rightarrow> 16 word"
  pot_level_value :: "nat \<Rightarrow> 16 word"
  pot_atten_value :: "nat \<Rightarrow> 16 word"
  pot_phase_value :: "nat \<Rightarrow> 16 word"
  version_token :: "16 word"
  storage :: "Settings option"

datatype fault = IndexOutOfRange | DivisionByZero

section \<open>Constants\<close>

definition kLongPressDuration :: int where "kLongPressDuration = 500"
definition kVeryLongPressDuration :: int where "kVeryLongPressDuration = 2000"
definition kClearSettingsLongPressDuration :: int where "kClearSettingsLongPressDuration = 4000"

definition kPotMoveThreshold :: int where "kPotMoveThreshold = 2 ^ (16 - 8)"
definition kPotMoveThresholdOnZoomMode :: int where "kPotMoveThresholdOnZoomMode = 2 ^ (16 - 6)"
definition kPotMoveThresholdOnRandomWaveformSelectMode :: int where
  "kPotMoveThresholdOnRandomWaveformSelectMode = 2 ^ (16 - 5)"

definition kCatchupThreshold :: int where "kCatchupThreshold = 2 ^ 10"

definition UINT16_MAX :: int where "UINT16_MAX = 65535"

text \<open>Modelled from the spec: the switch names and the numbers of switches and LEDs
  (declared in the drivers' headers, not among the sources). \<open>ui.h\<close> fixes the first three
  indices: \<open>sync_mode\<close> reads switch 0 and \<open>shape\<close> reads switches 1 and 2; \<open>Poll\<close>
  starts its loop at \<open>SWITCH_SELECT\<close>, after them; there is one LED per channel.\<close>

definition SWITCH_SYNC :: nat where "SWITCH_SYNC = 0"
definition SWITCH_WAV1 :: nat where "SWITCH_WAV1 = 1"
definition SWITCH_WAV2 :: nat where "SWITCH_WAV2 = 2"
definition SWITCH_SELECT :: nat where "SWITCH_SELECT = 3"
definition kNumSwitches :: nat where "kNumSwitches = 4"
definition kNumLeds :: nat where "kNumLeds = 4"

section \<open>Accessors (ui.h)\<close>

definition coarse :: "Ui \<Rightarrow> nat \<Rightarrow> int" where
  "coarse s channel = uint (pot_coarse_value s channel)"

text \<open>\<open>fine\<close> returns \<open>int16_t\<close>: an unsigned 16-bit value minus 32768 is always in range.\<close>

definition fine :: "Ui \<Rightarrow> nat \<Rightarrow> int" where
  "fine s channel = uint (pot_fine_value s channel) - 32768"

definition phase :: "Ui \<Rightarrow> nat \<Rightarrow> int" where
  "phase s channel = uint (pot_phase_value s channel)"

definition level :: "Ui \<Rightarrow> nat \<Rightarrow> int" where
  "level s channel = uint (pot_level_value s channel)"

definition atten :: "Ui \<Rightarrow> nat \<Rightarrow> int" where
  "atten s channel = uint (pot_atten_value s channel)"

definition shape :: "Ui \<Rightarrow> int" where
  "shape s = 2 * of_bool (pressed (switches s) 2) + of_bool (pressed (switches s) 1)"

definition sync_mode :: "Ui \<Rightarrow> bool" where
  "sync_mode s = pressed (switches s) 0"

section \<open>Persistence\<close>

text \<open>The number of phase values inside the block: the eight bytes of
  \<open>pot_phase_value_\<close> less the four of \<open>classic_waveform_index_\<close> that \<open>SETTINGS_SIZE\<close>
  does not count, in values of two bytes.\<close>

definition kPhaseValuesInBlock :: nat where
  "kPhaseValuesInBlock = (4 * 2 - 4 * 1) div 2"

definition settings_of :: "Ui \<Rightarrow> Settings" where
  "settings_of s =
     \<lparr>set_feat_mode = feat_mode s, set_bank = bank s,
      set_classic_waveform_index = classic_waveform_index s,
      set_random_waveform_index = random_waveform_index s,
      set_pot_fine_value = pot_fine_value s,
      set_pot_phase_value =
        (\<lambda>i. if i < kPhaseValuesInBlock then Some (pot_phase_value s i) else None),
      set_pot_level_value = pot_level_value s, set_pot_atten_value = pot_atten_value s\<rparr>"

text \<open>Modelled from the spec: the storage collaborator (stmlib, not among the sources).
  \<open>save\<close> writes the image of the block and changes the version token; \<open>load\<close> reports
  failure when there is no valid image and otherwise fills the block, leaving what is
  outside it as it was.\<close>

definition ParsimoniousSave :: "Ui \<Rightarrow> Ui" where
  "ParsimoniousSave s =
     s\<lparr>storage := Some (settings_of s), version_token := version_token s + 1\<rparr>"

definition ParsimoniousLoad :: "Ui \<Rightarrow> Ui option" where
  "ParsimoniousLoad s =
     (case storage s of
        None \<Rightarrow> None
      | Some img \<Rightarrow>
          Some (s\<lparr>feat_mode := set_feat_mode img, bank := set_bank img,
                  classic_waveform_index := set_classic_waveform_index img,
                  random_waveform_index := set_random_waveform_index img,
                  pot_fine_value := set_pot_fine_value img,
                  pot_phase_value :=
                    (\<lambda>i. case set_pot_phase_value img i of
                            Some v \<Rightarrow> v
                          | None \<Rightarrow> pot_phase_value s i),
                  pot_level_value := set_pot_level_value img,
                  pot_atten_value := set_pot_atten_value img\<rparr>))"

section \<open>Settings reset (ui.cc)\<close>

definition clearZoomSettings :: "Ui \<Rightarrow> Ui" where
  "clearZoomSettings s0 =
     fold (\<lambda>i s. s\<lparr>pot_fine_value := (pot_fine_value s)(i := word_of_int (UINT16_MAX div 2)),
                    pot_phase_value := (pot_phase_value s)(i := word_of_int UINT16_MAX),
                    pot_level_value := (pot_level_value s)(i := word_of_int UINT16_MAX),
                    pot_atten_value := (pot_atten_value s)(i := word_of_int UINT16_MAX)\<rparr>)
       [0, 1, 2, 3] s0"

definition clearAllHiddenSettings :: "Ui \<Rightarrow> Ui" where
  "clearAllHiddenSettings s0 =
     clearZoomSettings
       (fold (\<lambda>i s. s\<lparr>random_waveform_index := (random_waveform_index s)(i := 0),
                       bank := (bank s)(i := BANK_CLASSIC)\<rparr>)
          [0, 1, 2, 3] s0)"

text \<open>The body of the loop of \<open>gotoNormalModeWithCatchupAndSaving\<close>.\<close>

definition mark_catchup :: "nat \<Rightarrow> Ui \<Rightarrow> Ui" where
  "mark_catchup i s =
     (if \<bar>uint (pot_value s i) - uint (pot_coarse_value s i)\<bar> > kCatchupThreshold
      then s\<lparr>catchup_state := (catchup_state s)(i := True)\<rparr> else s)"

definition gotoNormalModeWithCatchupAndSaving :: "Ui \<Rightarrow> Ui" where
  "gotoNormalModeWithCatchupAndSaving s0 =
     ParsimoniousSave ((fold mark_catchup [0, 1, 2, 3] s0)\<lparr>mode := UI_MODE_NORMAL\<rparr>)"

section \<open>Initialisation (ui.cc)\<close>

text \<open>\<open>Init\<close> runs on the constructed object \<open>s0\<close>, whose members other than
  \<open>classic_waveform_index\<close> are not initialised; \<open>adc_pot\<close> are the pot readings.\<close>

definition Init :: "(nat \<Rightarrow> 16 word) \<Rightarrow> Ui \<Rightarrow> Ui" where
  "Init adc_pot s0 =
     (let s1 = s0\<lparr>mode := UI_MODE_SPLASH, animation_counter := 0\<rparr>;
          s2 = (case ParsimoniousLoad s1 of
                  Some loaded \<Rightarrow> loaded
                | None \<Rightarrow> clearAllHiddenSettings (s1\<lparr>feat_mode := FEAT_MODE_FREE\<rparr>))
      in fold (\<lambda>i s. s\<lparr>pot_value := (pot_value s)(i := adc_pot i),
                        pot_filtered_value := (pot_filtered_value s)(i := adc_pot i),
                        pot_coarse_value := (pot_coarse_value s)(i := adc_pot i),
                        catchup_state := (catchup_state s)(i := False)\<rparr>)
           [0, 1, 2, 3] s2)"

section \<open>Event handlers (ui.cc)\<close>

definition AddEvent :: "ControlType \<Rightarrow> nat \<Rightarrow> int \<Rightarrow> Ui \<Rightarrow> Ui" where
  "AddEvent t i d s = s\<lparr>queue := queue s @ [\<lparr>control_type = t, control_id = i, data = d\<rparr>]\<rparr>"

definition OnSwitchPressed :: "Event \<Rightarrow> Ui \<Rightarrow> Ui" where
  "OnSwitchPressed e s = s"

definition OnSwitchReleased :: "Event \<Rightarrow> Ui \<Rightarrow> Ui" where
  "OnSwitchReleased e s =
     (if control_id e = SWITCH_SYNC \<or> control_id e = SWITCH_WAV1 \<or> control_id e = SWITCH_WAV2
      then s
      else if control_id e = SWITCH_SELECT then
        (if data e > kClearSettingsLongPressDuration then
           ParsimoniousSave
             ((clearAllHiddenSettings s)\<lparr>animation_counter := 0, mode := UI_MODE_SPLASH\<rparr>)
         else if data e > kVeryLongPressDuration then
           (if mode s \<noteq> UI_MODE_RANDOM_WAVEFORM_SELECT
            then s\<lparr>mode := UI_MODE_SPLASH_FOR_RANDOM_WAVEFORM_SELECT, animation_counter := 0\<rparr>
            else s)
         else if data e > kLongPressDuration then
           (if mode s = UI_MODE_NORMAL then s\<lparr>mode := UI_MODE_ZOOM\<rparr>
            else if mode s = UI_MODE_ZOOM then gotoNormalModeWithCatchupAndSaving s
            else s)
         else
           (case mode s of
              UI_MODE_SPLASH \<Rightarrow> s
            | UI_MODE_SPLASH_FOR_RANDOM_WAVEFORM_SELECT \<Rightarrow> s
            | UI_MODE_ZOOM \<Rightarrow> gotoNormalModeWithCatchupAndSaving s
            | UI_MODE_RANDOM_WAVEFORM_SELECT \<Rightarrow> gotoNormalModeWithCatchupAndSaving s
            | UI_MODE_NORMAL \<Rightarrow>
                ParsimoniousSave
                  (clearZoomSettings
                     (s\<lparr>feat_mode :=
                          feat_mode_of_nat
                            ((feat_mode_to_nat (feat_mode s) + 1)
                               mod feat_mode_to_nat FEAT_MODE_LAST)\<rparr>))))
      else s)"

definition tbl_waveformSelectionThreshold :: "int list" where
  "tbl_waveformSelectionThreshold = [9500, 26214, 42312, 60000]"

text \<open>The search loop of \<open>selectRandomWaveformFromPot\<close>: the first index whose threshold
  exceeds the pot value, 4 when there is none.\<close>

fun waveform_pos :: "int \<Rightarrow> int list \<Rightarrow> nat \<Rightarrow> nat" where
  "waveform_pos potVal [] i = 4"
| "waveform_pos potVal (t # ts) i = (if potVal < t then i else waveform_pos potVal ts (Suc i))"

definition selectRandomWaveformFromPot :: "nat \<Rightarrow> int \<Rightarrow> Ui \<Rightarrow> fault + Ui" where
  "selectRandomWaveformFromPot ident potVal s =
     (let pos0 = waveform_pos potVal tbl_waveformSelectionThreshold 0;
          pos = (if pos0 > 4 then 4 else pos0)
      in if ident \<ge> 4 then Inl IndexOutOfRange
         else if pos \<le> 0 then
           Inr (s\<lparr>random_waveform_index := (random_waveform_index s)(ident := 0),
                  bank := (bank s)(ident := BANK_CLASSIC)\<rparr>)
         else
           Inr (s\<lparr>random_waveform_index := (random_waveform_index s)(ident := pos - 1),
                  bank := (bank s)(ident := BANK_RANDOM)\<rparr>))"

text \<open>A store of the event payload into a \<open>uint16_t\<close> member keeps its low 16 bits
  (\<open>word_of_int\<close>); \<open>last_touched_pot\<close> is a \<open>uint8_t\<close>.\<close>

definition OnPotChanged :: "Event \<Rightarrow> Ui \<Rightarrow> fault + Ui" where
  "OnPotChanged e s =
     (case mode s of
        UI_MODE_SPLASH \<Rightarrow> Inr s
      | UI_MODE_SPLASH_FOR_RANDOM_WAVEFORM_SELECT \<Rightarrow> Inr s
      | UI_MODE_ZOOM \<Rightarrow>
          (if control_id e = 0 then
             (if last_touched_pot s \<ge> 4 then Inl IndexOutOfRange
              else Inr (s\<lparr>pot_fine_value :=
                             (pot_fine_value s)(last_touched_pot s := word_of_int (data e))\<rparr>))
           else if control_id e = 1 then
             (if last_touched_pot s \<ge> 4 then Inl IndexOutOfRange
              else Inr (s\<lparr>pot_level_value :=
                             (pot_level_value s)(last_touched_pot s := word_of_int (data e))\<rparr>))
           else if control_id e = 2 then
             (if last_touched_pot s \<ge> 4 then Inl IndexOutOfRange
              else Inr (s\<lparr>pot_atten_value :=
                             (pot_atten_value s)(last_touched_pot s := word_of_int (data e))\<rparr>))
           else if control_id e = 3 then
             (if last_touched_pot s \<ge> 4 then Inl IndexOutOfRange
              else Inr (s\<lparr>pot_phase_value :=
                             (pot_phase_value s)(last_touched_pot s := word_of_int (data e))\<rparr>))
           else Inr s)
      | UI_MODE_NORMAL \<Rightarrow>
          (let s1 = s\<lparr>last_touched_pot := control_id e mod 256\<rparr> in
           if control_id e \<ge> 4 then Inl IndexOutOfRange
           else if \<not> catchup_state s1 (control_id e) then
             Inr (s1\<lparr>pot_coarse_value :=
                       (pot_coarse_value s1)(control_id e := word_of_int (data e))\<rparr>)
           else if \<bar>data e - uint (pot_coarse_value s1 (control_id e))\<bar> < kCatchupThreshold then
             Inr (s1\<lparr>pot_coarse_value :=
                       (pot_coarse_value s1)(control_id e := word_of_int (data e)),
                     catchup_state := (catchup_state s1)(control_id e := False)\<rparr>)
           else Inr s1)
      | UI_MODE_RANDOM_WAVEFORM_SELECT \<Rightarrow>
          selectRandomWaveformFromPot (control_id e) (data e) s)"

text \<open>\<open>DoEvents\<close> drains the queue in order; \<open>pending\<close> is what is still queued.\<close>

fun dispatch :: "Event \<Rightarrow> Ui \<Rightarrow> fault + Ui" where
  "dispatch e s =
     (case control_type e of
        CONTROL_SWITCH \<Rightarrow>
          (if data e = 0 then Inr (OnSwitchPressed e s) else Inr (OnSwitchReleased e s))
      | CONTROL_POT \<Rightarrow> OnPotChanged e s)"

fun drain :: "Event list \<Rightarrow> Ui \<Rightarrow> fault + Ui" where
  "drain [] s = Inr s"
| "drain (e # pending) s =
     (case dispatch e (s\<lparr>queue := pending\<rparr>) of
        Inl f \<Rightarrow> Inl f
      | Inr s' \<Rightarrow> drain pending s')"

definition DoEvents :: "Ui \<Rightarrow> fault + Ui" where
  "DoEvents s = drain (queue s) s"

section \<open>Polling (ui.cc)\<close>

text \<open>What one call of \<open>Poll\<close> reads from outside: the switch driver after \<open>Debounce\<close>,
  the system clock in milliseconds and the four pot readings.\<close>

record PollInput =
  in_switches :: Switches
  in_milliseconds :: "32 word"
  in_pot :: "nat \<Rightarrow> 16 word"

text \<open>One iteration of the switch loop. The elapsed time is an unsigned 32-bit difference
  read as \<open>int32_t\<close>.\<close>

definition poll_switch :: "32 word \<Rightarrow> nat \<Rightarrow> Ui \<Rightarrow> Ui" where
  "poll_switch now i s =
     (let s1 = (if just_pressed (switches s) i
                then (AddEvent CONTROL_SWITCH i 0 s)
                       \<lparr>press_time := (press_time s)(i := now),
                        detect_very_long_press := (detect_very_long_press s)(i := False),
                        detect_clear_settings_long_press :=
                          (detect_clear_settings_long_press s)(i := False)\<rparr>
                else s);
          pressed_time = sint (now - press_time s1 i);
          s2 = (if pressed (switches s1) i \<and> press_time s1 i \<noteq> 0 then
                  (if \<not> detect_clear_settings_long_press s1 i then
                     (if \<not> detect_very_long_press s1 i then
                        (if pressed_time > kLongPressDuration
                         then (AddEvent CONTROL_SWITCH i pressed_time s1)
                                \<lparr>detect_very_long_press :=
                                   (detect_very_long_press s1)(i := True)\<rparr>
                         else s1)
                      else
                        (if pressed_time > kVeryLongPressDuration
                         then (AddEvent CONTROL_SWITCH i pressed_time s1)
                                \<lparr>detect_very_long_press :=
                                   (detect_very_long_press s1)(i := False),
                                 detect_clear_settings_long_press :=
                                   (detect_clear_settings_long_press s1)(i := True)\<rparr>
                         else s1))
                   else
                     (if pressed_time > kClearSettingsLongPressDuration
                      then (AddEvent CONTROL_SWITCH i pressed_time s1)
                             \<lparr>detect_very_long_press :=
                                (detect_very_long_press s1)(i := False),
                              detect_clear_settings_long_press :=
                                (detect_clear_settings_long_press s1)(i := False),
                              press_time := (press_time s1)(i := 0)\<rparr>
                      else s1))
                else s1)
      in if released (switches s2) i \<and> press_time s2 i \<noteq> 0
            \<and> \<not> detect_very_long_press s2 i \<and> \<not> detect_clear_settings_long_press s2 i
         then (AddEvent CONTROL_SWITCH i (sint (now - press_time s2 i + 1)) s2)
                \<lparr>press_time := (press_time s2)(i := 0)\<rparr>
         else s2)"

definition potMoveThreshold :: "UiMode \<Rightarrow> int" where
  "potMoveThreshold m =
     (if m = UI_MODE_ZOOM then kPotMoveThresholdOnZoomMode
      else if m = UI_MODE_RANDOM_WAVEFORM_SELECT then kPotMoveThresholdOnRandomWaveformSelectMode
      else kPotMoveThreshold)"

text \<open>One iteration of the pot loop: \<open>value\<close> is computed in 32 bits and is non-negative,
  so the shift by 5 is a division by 32.\<close>

definition poll_pot :: "(nat \<Rightarrow> 16 word) \<Rightarrow> int \<Rightarrow> nat \<Rightarrow> Ui \<Rightarrow> Ui" where
  "poll_pot adc_pot threshold i s =
     (let adc_value = adc_pot i;
          val = (31 * uint (pot_filtered_value s i) + uint adc_value) div 2 ^ 5;
          s1 = s\<lparr>pot_filtered_value := (pot_filtered_value s)(i := word_of_int val)\<rparr>;
          current_value = uint (pot_value s1 i)
      in if val \<ge> current_value + threshold \<or> val \<le> current_value - threshold
         then (AddEvent CONTROL_POT i val s1)\<lparr>pot_value := (pot_value s1)(i := word_of_int val)\<rparr>
         else s1)"

definition set_leds :: "(nat \<Rightarrow> bool) \<Rightarrow> Ui \<Rightarrow> Ui" where
  "set_leds f s0 = fold (\<lambda>i s. s\<lparr>leds := (leds s)(i := f i)\<rparr>) [0..<kNumLeds] s0"

text \<open>The painting \<open>switch\<close>, which also advances the two splash animations to the next
  mode. \<open>/\<close> and \<open>%\<close> on the signed counter truncate (\<open>sdiv\<close>, \<open>smod\<close>).\<close>

definition paint :: "Ui \<Rightarrow> Ui" where
  "paint s =
     (case mode s of
        UI_MODE_SPLASH \<Rightarrow>
          (let s1 = (if animation_counter s smod 64 = 0 then
                       (let s' = set_leds (\<lambda>i. (animation_counter s sdiv 64) smod 4 = int i) s
                        in if animation_counter s sdiv 64 > 3
                           then s'\<lparr>mode := UI_MODE_NORMAL\<rparr> else s')
                     else s)
           in s1\<lparr>animation_counter := animation_counter s1 + 1\<rparr>)
      | UI_MODE_ZOOM \<Rightarrow>
          (let s1 = s\<lparr>animation_counter := animation_counter s + 1\<rparr>;
               s2 = set_leds (\<lambda>i. False) s1
           in s2\<lparr>leds := (leds s2)(last_touched_pot s2 := bit (animation_counter s2) 7)\<rparr>)
      | UI_MODE_NORMAL \<Rightarrow>
          (let s1 = s\<lparr>animation_counter := animation_counter s + 1\<rparr>;
               flash = (bit (animation_counter s1) 6 \<and> bit (animation_counter s1) 5
                        \<and> bit (animation_counter s1) 4)
           in set_leds (\<lambda>i. if catchup_state s1 i
                             then (if i = feat_mode_to_nat (feat_mode s1) then \<not> flash else flash)
                             else i = feat_mode_to_nat (feat_mode s1)) s1)
      | UI_MODE_RANDOM_WAVEFORM_SELECT \<Rightarrow>
          (let flash_base = (\<not> bit (animation_counter s) 7);
               setting_val_count = ((animation_counter s sdiv (128 * 2)) smod 4) mod 256;
               s1 = set_leds (\<lambda>i. flash_base \<and> bank s i = BANK_RANDOM
                                    \<and> int (random_waveform_index s i) \<ge> setting_val_count) s
           in s1\<lparr>animation_counter := animation_counter s1 + 1\<rparr>)
      | UI_MODE_SPLASH_FOR_RANDOM_WAVEFORM_SELECT \<Rightarrow>
          (let s1 = (if animation_counter s smod 100 = 0
                     then set_leds (\<lambda>i. (animation_counter s sdiv 100) smod 2 = 0) s else s);
               s2 = s1\<lparr>animation_counter := animation_counter s1 + 1\<rparr>
           in if animation_counter s2 \<ge> 2 * 200 - 1
              then s2\<lparr>mode := UI_MODE_RANDOM_WAVEFORM_SELECT, animation_counter := 0\<rparr>
              else s2))"

definition Poll :: "PollInput \<Rightarrow> Ui \<Rightarrow> Ui" where
  "Poll inp s0 =
     (let s1 = s0\<lparr>switches := in_switches inp\<rparr>;
          s2 = fold (poll_switch (in_milliseconds inp)) [SWITCH_SELECT..<kNumSwitches] s1;
          s3 = fold (poll_pot (in_pot inp) (potMoveThreshold (mode s2))) [0, 1, 2, 3] s2
      in paint s3)"

section \<open>Fixed-width conversions and helpers (processor.cc)\<close>

definition to_int8 :: "int \<Rightarrow> int" where
  "to_int8 x = (x + 128) mod 256 - 128"

definition to_int16 :: "int \<Rightarrow> int" where
  "to_int16 x = (x + 32768) mod 65536 - 32768"

definition to_uint16 :: "int \<Rightarrow> int" where
  "to_uint16 x = x mod 65536"

definition INT16_MAX :: int where "INT16_MAX = 32767"

text \<open>Modelled from the spec: the clamping macro \<^verbatim>\<open>CONSTRAIN(var, min, max)\<close> of stmlib
  (not among the sources), an assignment of the clamped value to \<open>var\<close>.\<close>

definition CONSTRAIN :: "int \<Rightarrow> int \<Rightarrow> int \<Rightarrow> int" where
  "CONSTRAIN var lo hi = (if var < lo then lo else if var > hi then hi else var)"

definition kUnsyncPotThreshold :: int where "kUnsyncPotThreshold = INT16_MAX sdiv 20"
definition kResetThresholdLow :: int where "kResetThresholdLow = 10000"
definition kResetThresholdHigh :: int where "kResetThresholdHigh = 20000"

text \<open>Modelled from the spec: the number of channels (declared in \<open>processor.h\<close>, not
  among the sources); the module has four oscillators.\<close>

definition kNumChannels :: nat where "kNumChannels = 4"

text \<open>The lookup tables of \<open>resources.h\<close> and the constants of \<open>lfo.h\<close> are not among the
  sources: they are parameters. Table entries have the width they are read with.\<close>

record Resources =
  lut_scale_pitch :: "nat \<Rightarrow> 16 word"
  lut_scale_phase :: "nat \<Rightarrow> 16 word"
  lut_scale_divide :: "nat \<Rightarrow> 8 word"
  lut_scale_divide_multiply :: "nat \<Rightarrow> 8 word"
  kOctave :: int
  SHAPE_SINE :: int
  SHAPE_SQUARE :: int
  SHAPE_TRAPEZOID :: int
  SHAPE_RANDOM_STEP :: int

text \<open>Modelled from the spec: the interpolated table lookup of stmlib (not among the
  sources), linear between the two entries around an 8.8 fixed-point index.\<close>

definition Interpolate88 :: "(nat \<Rightarrow> 16 word) \<Rightarrow> int \<Rightarrow> int" where
  "Interpolate88 table index =
     (let a = uint (table (nat (index div 256)));
          b = uint (table (nat (index div 256) + 1))
      in to_uint16 (a + ((b - a) * (index mod 256)) div 256))"

section \<open>Conversion functions (processor.cc)\<close>

text \<open>The parameters are \<open>uint16_t pot\<close>, \<open>int16_t fine\<close> and \<open>int16_t cv\<close>; a right shift
  of a signed value is arithmetic (\<open>div\<close> by a power of two).\<close>

definition AdcValuesToPitch :: "Resources \<Rightarrow> 16 word \<Rightarrow> 16 word \<Rightarrow> 16 word \<Rightarrow> int" where
  "AdcValuesToPitch r coarse0 fine0 cv0 =
     (let coarse1 = to_uint16 (Interpolate88 (lut_scale_pitch r) (uint coarse0) - 32768);
          fine1 = to_int16 ((1 * kOctave r * sint fine0) div 2 ^ 16);
          cv1 = to_int16 ((sint cv0 * 5 * kOctave r) div 2 ^ 15)
      in to_int16 (coarse1 + fine1 + cv1))"

definition AdcValuesToDivider :: "Resources \<Rightarrow> 16 word \<Rightarrow> 16 word \<Rightarrow> 16 word \<Rightarrow> int" where
  "AdcValuesToDivider r pot fine0 cv =
     (let ctrl = CONSTRAIN (uint pot + sint cv) 0 UINT16_MAX;
          fine1 = to_int16 ((5 * (sint fine0 + INT16_MAX sdiv 5)) div 2 ^ 16);
          div0 = sint (lut_scale_divide r (nat (ctrl div 2 ^ 8)));
          div1 = to_int8 (div0 - fine1)
      in CONSTRAIN div1 1 64)"

definition AdcValuesToDividerMultiplier ::
  "Resources \<Rightarrow> 16 word \<Rightarrow> 16 word \<Rightarrow> 16 word \<Rightarrow> int" where
  "AdcValuesToDividerMultiplier r pot fine0 cv =
     (let ctrl = CONSTRAIN (uint pot + sint cv) 0 UINT16_MAX;
          fine1 = to_int16 ((5 * (sint fine0 + INT16_MAX sdiv 5)) div 2 ^ 16);
          div0 = sint (lut_scale_divide_multiply r (nat (ctrl div 2 ^ 8)));
          div1 =
            (if fine1 > 1 then
               (let d = to_int8 (div0 - fine1)
                in if d = 0 then - 2 else if d = - 1 then - 3 else d)
             else if fine1 = 1 then
               (let d = to_int8 (div0 - fine1) in if d = 0 then - 2 else d)
             else if fine1 < - 1 then
               (let d = to_int8 (div0 - fine1) in if d = 0 then 2 else d)
             else if fine1 = - 1 then to_int8 (div0 - fine1)
             else div0)
      in if div1 \<ge> - 1 then CONSTRAIN div1 1 64 else CONSTRAIN div1 (- 64) (- 2))"

definition AdcValuesToPhase :: "Resources \<Rightarrow> 16 word \<Rightarrow> 16 word \<Rightarrow> 16 word \<Rightarrow> int" where
  "AdcValuesToPhase r pot0 fine0 cv =
     (let pot1 = to_uint16 (65536 - uint pot0);
          ctrl = CONSTRAIN (pot1 + sint cv + sint fine0 sdiv 8) 0 UINT16_MAX
      in Interpolate88 (lut_scale_phase r) ctrl)"

definition AdcValuesToLevel :: "Resources \<Rightarrow> 16 word \<Rightarrow> 16 word \<Rightarrow> 16 word \<Rightarrow> int" where
  "AdcValuesToLevel r pot fine0 cv =
     (let ctrl0 = uint pot + sint cv - 256;
          ctrl1 = ctrl0 + sint fine0 sdiv 4;
          ctrl = CONSTRAIN ctrl1 0 UINT16_MAX
      in Interpolate88 (lut_scale_phase r) ctrl)"

section \<open>Data model of the processor (processor.cc)\<close>

text \<open>Modelled from the spec: the oscillator primitive (\<open>lfo.h\<close>, not among the sources).
  Its internal arithmetic is out of scope, so an oscillator is the sequence of operations
  invoked on it, oldest first, each with the argument value it was given; \<open>LinkTo\<close>
  carries the index of the master, as the design notes of the specification ask.\<close>

datatype LfoCall =
  LfoInit | LfoReset int | SetPitch int | SetPeriod int | Align | SetLevel int
  | SetDivider int | SetMultiplier int | LinkTo nat | SetHold bool | SetDirection bool
  | SetInitialPhase int | Step

text \<open>Modelled from the spec: what the processor reads back from an oscillator, a sample
  for a shape (signed 16 bits) and the current level (unsigned 16 bits), both functions of
  its history and parameters of the routines that read them.\<close>

record Oscillator =
  ComputeSampleShape :: "LfoCall list \<Rightarrow> int \<Rightarrow> 16 word"
  current_level :: "LfoCall list \<Rightarrow> 16 word"

text \<open>Modelled from the spec: the members of class \<open>Processor\<close> (declared in
  \<open>processor.h\<close>, not among the sources), as \<open>processor.cc\<close> uses them. Numeric members
  are integers, and the conversions the \<open>.cc\<close> file performs on its own typed locals are
  written out. \<open>dac_sine\<close> and \<open>dac_asgn\<close> are the values last handed to the DAC driver.\<close>

record Processor =
  previous_feat_mode :: FeatureMode
  lfo :: "nat \<Rightarrow> LfoCall list"
  filtered_cv :: "nat \<Rightarrow> int"
  reset_trigger_armed :: "nat \<Rightarrow> bool"
  reset_triggered :: "nat \<Rightarrow> bool"
  reset_subsample :: "nat \<Rightarrow> int"
  previous_reset :: "nat \<Rightarrow> int"
  last_reset :: "nat \<Rightarrow> int"
  last_coarse :: "nat \<Rightarrow> int"
  synced :: "nat \<Rightarrow> bool"
  waveform_offset :: int
  dac_sine :: "nat \<Rightarrow> int"
  dac_asgn :: "nat \<Rightarrow> int"

text \<open>Modelled from the spec: the analog samples of one tick (the ADC driver is not among
  the sources): CV and reset inputs, signed 16 bits.\<close>

record AdcInput =
  adc_cv :: "nat \<Rightarrow> 16 word"
  adc_reset :: "nat \<Rightarrow> 16 word"

definition call_lfo :: "nat \<Rightarrow> LfoCall \<Rightarrow> Processor \<Rightarrow> Processor" where
  "call_lfo i c p = p\<lparr>lfo := (lfo p)(i := lfo p i @ [c])\<rparr>"

definition Processor_Init :: "Processor \<Rightarrow> Processor" where
  "Processor_Init p0 =
     (fold (\<lambda>i p. p\<lparr>reset_trigger_armed := (reset_trigger_armed p)(i := False),
                     last_reset := (last_reset p)(i := 0)\<rparr>)
        [0..<kNumChannels] (p0\<lparr>previous_feat_mode := FEAT_MODE_LAST\<rparr>))
     \<lparr>waveform_offset := 0\<rparr>"

section \<open>Frequency assignment (processor.cc)\<close>

definition SetFrequency :: "Resources \<Rightarrow> Ui \<Rightarrow> nat \<Rightarrow> Processor \<Rightarrow> Processor" where
  "SetFrequency r u lfo_no p =
     (let cv = to_int16 ((filtered_cv p lfo_no * atten u lfo_no) div 2 ^ 16);
          p1 = (if sync_mode u then
                  (if cv > 0
                   then call_lfo lfo_no (SetDivider 1)
                          (call_lfo lfo_no (SetMultiplier ((cv * 8) sdiv 32767 + 1)) p)
                   else call_lfo lfo_no (SetDivider ((- cv * 8) sdiv 32767 + 1))
                          (call_lfo lfo_no (SetMultiplier 1) p))
                else p);
          p2 = (if reset_triggered p1 lfo_no then
                  (let p' = (if sync_mode u
                             then (call_lfo lfo_no Align
                                     (call_lfo lfo_no (SetPeriod (last_reset p1 lfo_no)) p1))
                                  \<lparr>synced := (synced p1)(lfo_no := True)\<rparr>
                             else call_lfo lfo_no (LfoReset (reset_subsample p1 lfo_no)) p1)
                   in p'\<lparr>reset_trigger_armed := (reset_trigger_armed p')(lfo_no := False),
                         last_reset := (last_reset p')(lfo_no := 0)\<rparr>)
                else p1\<lparr>last_reset := (last_reset p1)(lfo_no := last_reset p1 lfo_no + 1)\<rparr>);
          pitch = AdcValuesToPitch r (pot_coarse_value u lfo_no)
                    (word_of_int (fine u lfo_no)) (word_of_int cv)
      in if \<not> synced p2 lfo_no
            \<or> coarse u lfo_no \<ge> last_coarse p2 lfo_no + kUnsyncPotThreshold
            \<or> coarse u lfo_no \<le> last_coarse p2 lfo_no - kUnsyncPotThreshold
         then (call_lfo lfo_no (SetPitch pitch) p2)
                \<lparr>last_coarse := (last_coarse p2)(lfo_no := coarse u lfo_no),
                 synced := (synced p2)(lfo_no := False)\<rparr>
         else p2)"

section \<open>The per-tick routine (processor.cc)\<close>

text \<open>First loop of \<open>Process\<close>, one channel: level, CV filter and reset detection. The
  sub-sample offset is a quotient; a zero divisor is a fault of the routine.\<close>

definition condition_channel ::
  "Resources \<Rightarrow> Ui \<Rightarrow> AdcInput \<Rightarrow> nat \<Rightarrow> Processor \<Rightarrow> fault + Processor" where
  "condition_channel r u a i p =
     (let p1 = (if feat_mode u \<noteq> FEAT_MODE_QUAD
                then call_lfo i (SetLevel (AdcValuesToLevel r (pot_level_value u i) 0 0)) p
                else p);
          p2 = p1\<lparr>filtered_cv :=
                    (filtered_cv p1)(i := filtered_cv p1 i
                                          + (sint (adc_cv a i) - filtered_cv p1 i) div 2 ^ 6)\<rparr>;
          reset = sint (adc_reset a i);
          p3 = (if reset < kResetThresholdLow
                then p2\<lparr>reset_trigger_armed := (reset_trigger_armed p2)(i := True)\<rparr>
                else p2)
      in if reset > kResetThresholdHigh \<and> reset_trigger_armed p3 i then
           (let dist_to_trig = kResetThresholdHigh - previous_reset p3 i;
                dist_to_next = reset - previous_reset p3 i
            in if dist_to_next = 0 then Inl DivisionByZero
               else Inr (p3\<lparr>reset_triggered := (reset_triggered p3)(i := True),
                            reset_subsample :=
                              (reset_subsample p3)(i := (dist_to_trig * 32) sdiv dist_to_next),
                            previous_reset := (previous_reset p3)(i := reset)\<rparr>))
         else Inr (p3\<lparr>reset_triggered := (reset_triggered p3)(i := False),
                      previous_reset := (previous_reset p3)(i := reset)\<rparr>))"

fun condition_channels ::
  "Resources \<Rightarrow> Ui \<Rightarrow> AdcInput \<Rightarrow> nat list \<Rightarrow> Processor \<Rightarrow> fault + Processor" where
  "condition_channels r u a [] p = Inr p"
| "condition_channels r u a (i # is) p =
     (case condition_channel r u a i p of
        Inl f \<Rightarrow> Inl f
      | Inr p' \<Rightarrow> condition_channels r u a is p')"

text \<open>The block shared by the Quad, Phase and Divide cases: reset 2 holds, reset 3 changes
  direction, reset 4 changes the waveform.\<close>

definition reset_inputs_to_master :: "Processor \<Rightarrow> Processor" where
  "reset_inputs_to_master p =
     (let p1 = call_lfo 0 (SetHold (reset_triggered p 1)) p;
          p2 = call_lfo 0 (SetDirection (\<not> reset_triggered p1 2)) p1
      in if reset_triggered p2 3
         then p2\<lparr>waveform_offset := waveform_offset p2 + 1,
                 reset_trigger_armed := (reset_trigger_armed p2)(3 := False)\<rparr>
         else p2)"

definition quad_channel :: "Resources \<Rightarrow> Ui \<Rightarrow> nat \<Rightarrow> Processor \<Rightarrow> Processor" where
  "quad_channel r u i p =
     (let cv = (filtered_cv p i * atten u i) div 2 ^ 16;
          p1 = call_lfo i (SetLevel (AdcValuesToLevel r (pot_coarse_value u i)
                                       (word_of_int (fine u i)) (word_of_int cv))) p;
          p2 = call_lfo i (LinkTo 0) p1;
          div0 = to_int16 ((7 * (65535 - level u i)) div 2 ^ 16);
          div1 = to_int16 (div0 + (int i + 1));
          div2 = CONSTRAIN div1 1 16;
          p3 = call_lfo i (SetDivider div2) p2
      in call_lfo i (SetInitialPhase (phase u i)) p3)"

definition phase_channel_quadrature :: "nat \<Rightarrow> Processor \<Rightarrow> Processor" where
  "phase_channel_quadrature i p =
     call_lfo i (SetInitialPhase ((int kNumChannels - int i) * (UINT16_MAX div 2 ^ 2)))
       (call_lfo i (LinkTo 0) p)"

definition phase_channel_normal :: "Resources \<Rightarrow> Ui \<Rightarrow> nat \<Rightarrow> Processor \<Rightarrow> Processor" where
  "phase_channel_normal r u i p =
     (let p1 = call_lfo i (LinkTo 0) p;
          cv = to_int16 ((filtered_cv p1 i * atten u i) div 2 ^ 16);
          p2 = call_lfo i (SetInitialPhase (AdcValuesToPhase r (pot_coarse_value u i)
                                              (word_of_int (fine u i)) (word_of_int cv))) p1;
          div0 = to_int16 ((7 * (65535 - phase u i)) div 2 ^ 16);
          div1 = CONSTRAIN div0 1 16
      in call_lfo i (SetDivider div1) p2)"

definition divide_channel :: "Resources \<Rightarrow> Ui \<Rightarrow> nat \<Rightarrow> Processor \<Rightarrow> Processor" where
  "divide_channel r u i p =
     (let p1 = call_lfo i (LinkTo 0) p;
          cv = to_int16 ((filtered_cv p1 i * atten u i) div 2 ^ 16);
          divMult = AdcValuesToDividerMultiplier r (pot_coarse_value u i)
                      (word_of_int (fine u i)) (word_of_int cv);
          p2 = (if divMult > 1
                then call_lfo i (SetDivider divMult) (call_lfo i (SetMultiplier 1) p1)
                else if divMult < - 1
                then call_lfo i (SetDivider 1) (call_lfo i (SetMultiplier (- divMult)) p1)
                else call_lfo i (SetDivider 1) (call_lfo i (SetMultiplier 1) p1));
          p3 = call_lfo i (SetInitialPhase (phase u i)) p2
      in if \<not> sync_mode u \<and> reset_triggered p3 0
         then call_lfo i (LfoReset (reset_subsample p3 0)) p3
         else p3)"

text \<open>The \<open>switch\<close> on the feature mode.\<close>

definition route :: "Resources \<Rightarrow> Ui \<Rightarrow> Processor \<Rightarrow> Processor" where
  "route r u p =
     (case feat_mode u of
        FEAT_MODE_FREE \<Rightarrow>
          fold (\<lambda>i q. call_lfo i (SetInitialPhase (phase u i)) (SetFrequency r u i q))
            [0..<kNumChannels] p
      | FEAT_MODE_QUAD \<Rightarrow>
          (let p1 = SetFrequency r u 0 p;
               p2 = call_lfo 0 (SetInitialPhase (phase u 0)) p1;
               p3 = reset_inputs_to_master p2;
               p4 = call_lfo 0 (SetLevel (AdcValuesToLevel r (pot_level_value u 0) 0 0)) p3
           in fold (quad_channel r u) [1..<kNumChannels] p4)
      | FEAT_MODE_PHASE \<Rightarrow>
          (let p1 = SetFrequency r u 0 p;
               p2 = reset_inputs_to_master p1
           in if coarse u 1 > UINT16_MAX - 256 \<and> coarse u 2 > UINT16_MAX - 256
                 \<and> coarse u 3 > UINT16_MAX - 256
              then fold phase_channel_quadrature [1..<kNumChannels] p2
              else fold (phase_channel_normal r u) [1..<kNumChannels] p2)
      | FEAT_MODE_DIVIDE \<Rightarrow>
          (let p1 = SetFrequency r u 0 p;
               p2 = call_lfo 0 (SetInitialPhase (phase u 0)) p1;
               p3 = reset_inputs_to_master p2
           in fold (divide_channel r u) [1..<kNumChannels] p3)
      | FEAT_MODE_LAST \<Rightarrow> p)"

text \<open>The shape of channel \<open>i\<close>; \<open>%\<close> truncates, the offset is a \<open>uint8_t\<close>.\<close>

definition channel_shape :: "Resources \<Rightarrow> Ui \<Rightarrow> Processor \<Rightarrow> nat \<Rightarrow> int" where
  "channel_shape r u p i =
     (let ui_shape = (case bank u i of
                        BANK_CLASSIC \<Rightarrow> shape u
                      | BANK_RANDOM \<Rightarrow> int (random_waveform_index u i)
                      | BANK_LAST \<Rightarrow> shape u);
          offset = (case bank u i of
                      BANK_CLASSIC \<Rightarrow> SHAPE_TRAPEZOID r mod 256
                    | BANK_RANDOM \<Rightarrow> SHAPE_RANDOM_STEP r mod 256
                    | BANK_LAST \<Rightarrow> 42);
          s = ((ui_shape + waveform_offset p) smod 4) + offset
      in if feat_mode u = FEAT_MODE_QUAD \<and> s = SHAPE_TRAPEZOID r then SHAPE_SQUARE r else s)"

text \<open>The denominator of the Quad normalisation, as the output loop computes it.\<close>

definition quad_denominator :: "int \<Rightarrow> int" where
  "quad_denominator gain = (if gain < UINT16_MAX then UINT16_MAX else gain)"

text \<open>The output loop, from the last channel down to the first, with its three
  accumulators. A left shift is a multiplication, the division truncates, and a zero
  divisor is a fault.\<close>

fun output_channels ::
  "Resources \<Rightarrow> Oscillator \<Rightarrow> Ui \<Rightarrow> (nat \<Rightarrow> int) \<Rightarrow> nat list \<Rightarrow> int \<times> int \<times> int
     \<Rightarrow> Processor \<Rightarrow> fault + Processor" where
  "output_channels r osc u shp [] acc p = Inr p"
| "output_channels r osc u shp (i # is) (sample1_0, sample2_0, gain_0) p =
     (let p1 = call_lfo i Step p;
          (sample1_1, sample2_1, gain_1) =
            (if feat_mode u \<noteq> FEAT_MODE_QUAD then (0, 0, 0)
             else (sample1_0, sample2_0, gain_0));
          sample1 = sample1_1 + sint (ComputeSampleShape osc (lfo p1 i) (SHAPE_SINE r));
          sample2 = sample2_1 + sint (ComputeSampleShape osc (lfo p1 i) (shp i));
          gain = gain_1 + uint (current_level osc (lfo p1 i))
      in if feat_mode u = FEAT_MODE_QUAD then
           (let g = quad_denominator gain
            in if g = 0 then Inl DivisionByZero
               else output_channels r osc u shp is (sample1, sample2, gain)
                      (p1\<lparr>dac_sine := (dac_sine p1)(i := ((sample1 * 2 ^ 13) sdiv g) * 2 ^ 3),
                          dac_asgn := (dac_asgn p1)(i := ((sample2 * 2 ^ 13) sdiv g) * 2 ^ 3)\<rparr>))
         else output_channels r osc u shp is (sample1, sample2, gain)
                (p1\<lparr>dac_sine := (dac_sine p1)(i := sample1),
                    dac_asgn := (dac_asgn p1)(i := sample2)\<rparr>))"

text \<open>\<open>Process\<close>: nothing happens during the splash animation; a change of feature mode
  re-initialises the oscillators and the waveform offset.\<close>

definition Process ::
  "Resources \<Rightarrow> Oscillator \<Rightarrow> Ui \<Rightarrow> AdcInput \<Rightarrow> Processor \<Rightarrow> fault + Processor" where
  "Process r osc u a p =
     (if mode u = UI_MODE_SPLASH then Inr p
      else
        (let p1 = (if feat_mode u \<noteq> previous_feat_mode p
                   then (fold (\<lambda>i q. call_lfo i LfoInit q) [0..<kNumChannels] p)
                          \<lparr>previous_feat_mode := feat_mode u, waveform_offset := 0\<rparr>
                   else p)
         in case condition_channels r u a [0..<kNumChannels] p1 of
              Inl f \<Rightarrow> Inl f
            | Inr p2 \<Rightarrow>
                (let p3 = route r u p2
                 in output_channels r osc u (channel_shape r u p3) (rev [0..<kNumChannels])
                      (0, 0, 0) p3)))"

text \<open>A sequence of ticks, each with the interface snapshot and the samples it sees.\<close>

fun run ::
  "Resources \<Rightarrow> Oscillator \<Rightarrow> (Ui \<times> AdcInput) list \<Rightarrow> Processor \<Rightarrow> fault + Processor" where
  "run r osc [] p = Inr p"
| "run r osc ((u, a) # ticks) p =
     (case Process r osc u a p of
        Inl f \<Rightarrow> Inl f
      | Inr p' \<Rightarrow> run r osc ticks p')"

section \<open>Vocabulary of the properties and sample inputs\<close>

text \<open>The single-pole filter of the pot values, weight 31/32 on the previous value, and
  the movement test of a filtered value against a committed one.\<close>

definition filtered_next :: "16 word \<Rightarrow> 16 word \<Rightarrow> int" where
  "filtered_next f a = (31 * uint f + uint a) div 2 ^ 5"

definition moved :: "int \<Rightarrow> int \<Rightarrow> 16 word \<Rightarrow> bool" where
  "moved threshold v c \<longleftrightarrow> v \<ge> uint c + threshold \<or> v \<le> uint c - threshold"

text \<open>The fine term after scaling and the table entry found by
  \<open>AdcValuesToDividerMultiplier\<close>, written independently of it.\<close>

definition scaled_fine :: "16 word \<Rightarrow> int" where
  "scaled_fine fine0 = (5 * (sint fine0 + 6553)) div 65536"

definition divide_multiply_lookup :: "Resources \<Rightarrow> 16 word \<Rightarrow> 16 word \<Rightarrow> int" where
  "divide_multiply_lookup r pot cv =
     sint (lut_scale_divide_multiply r
             (nat ((if uint pot + sint cv < 0 then 0
                    else if uint pot + sint cv > 65535 then 65535
                    else uint pot + sint cv) div 256)))"

text \<open>Channel \<open>i\<close> would divide by zero on this tick: its trigger fires on a sample equal
  to the previous one. And the condition that excludes it: an armed channel whose previous
  sample is not above the trigger threshold.\<close>

definition zero_divisor :: "AdcInput \<Rightarrow> Processor \<Rightarrow> nat \<Rightarrow> bool" where
  "zero_divisor a p i \<longleftrightarrow>
     sint (adc_reset a i) > kResetThresholdHigh
     \<and> (reset_trigger_armed p i \<or> sint (adc_reset a i) < kResetThresholdLow)
     \<and> sint (adc_reset a i) = previous_reset p i"

definition armed_below_trigger :: "Processor \<Rightarrow> nat \<Rightarrow> bool" where
  "armed_below_trigger p i \<longleftrightarrow>
     (reset_trigger_armed p i \<longrightarrow> previous_reset p i \<le> kResetThresholdHigh)"

text \<open>Concrete inputs on which the theorems are instantiated.\<close>

definition ui_sample :: Ui where
  "ui_sample =
     \<lparr>pot_value = (\<lambda>_. 0), pot_filtered_value = (\<lambda>_. 0), pot_coarse_value = (\<lambda>_. 0),
      last_touched_pot = 0, press_time = (\<lambda>_. 0), detect_very_long_press = (\<lambda>_. False),
      detect_clear_settings_long_press = (\<lambda>_. False), catchup_state = (\<lambda>_. False),
      animation_counter = 0, queue = [], leds = (\<lambda>_. False),
      switches = \<lparr>just_pressed = (\<lambda>_. False), pressed = (\<lambda>_. False),
                   released = (\<lambda>_. False)\<rparr>,
      mode = UI_MODE_NORMAL, feat_mode = FEAT_MODE_QUAD, bank = (\<lambda>_. BANK_RANDOM),
      classic_waveform_index = (\<lambda>_. - 1), random_waveform_index = (\<lambda>_. 2),
      pot_fine_value = (\<lambda>_. 100), pot_level_value = (\<lambda>_. 200),
      pot_atten_value = (\<lambda>_. 300), pot_phase_value = (\<lambda>_. 400),
      version_token = 0, storage = None\<rparr>"

definition select_event :: "int \<Rightarrow> Event" where
  "select_event d = \<lparr>control_type = CONTROL_SWITCH, control_id = SWITCH_SELECT, data = d\<rparr>"

definition pot_event :: "nat \<Rightarrow> int \<Rightarrow> Event" where
  "pot_event i d = \<lparr>control_type = CONTROL_POT, control_id = i, data = d\<rparr>"

definition poll_sample :: PollInput where
  "poll_sample =
     \<lparr>in_switches = \<lparr>just_pressed = (\<lambda>_. False), pressed = (\<lambda>_. False),
                      released = (\<lambda>_. False)\<rparr>,
      in_milliseconds = 1000, in_pot = (\<lambda>i. if i = 2 then 32000 else 100)\<rparr>"


definition resources_sample :: Resources where
  "resources_sample =
     \<lparr>lut_scale_pitch = (\<lambda>_. 0), lut_scale_phase = (\<lambda>_. 0), lut_scale_divide = (\<lambda>_. 1),
      lut_scale_divide_multiply = (\<lambda>i. if i = 0 then 2 else if i = 1 then 1 else - 2),
      kOctave = 1536, SHAPE_SINE = 0, SHAPE_SQUARE = 1, SHAPE_TRAPEZOID = 2,
      SHAPE_RANDOM_STEP = 6\<rparr>"

definition osc_sample :: Oscillator where
  "osc_sample = \<lparr>ComputeSampleShape = (\<lambda>_ _. 100), current_level = (\<lambda>_. 0)\<rparr>"

definition processor_sample :: Processor where
  "processor_sample =
     \<lparr>previous_feat_mode = FEAT_MODE_QUAD, lfo = (\<lambda>_. []), filtered_cv = (\<lambda>_. 0),
      reset_trigger_armed = (\<lambda>_. True), reset_triggered = (\<lambda>_. False),
      reset_subsample = (\<lambda>_. 0), previous_reset = (\<lambda>_. 0), last_reset = (\<lambda>_. 0),
      last_coarse = (\<lambda>_. 0), synced = (\<lambda>_. False), waveform_offset = 5,
      dac_sine = (\<lambda>_. 0), dac_asgn = (\<lambda>_. 0)\<rparr>"

definition reset_sample :: "nat \<Rightarrow> 16 word \<Rightarrow> AdcInput" where
  "reset_sample c v = \<lparr>adc_cv = (\<lambda>_. 0), adc_reset = (\<lambda>i. if i = c then v else 0)\<rparr>"

definition phase_ui_sample :: Ui where
  "phase_ui_sample = ui_sample\<lparr>feat_mode := FEAT_MODE_PHASE, pot_coarse_value := (\<lambda>_. 65535)\<rparr>"

text \<open>The fault of a result, if any, and the operations recorded for one oscillator.\<close>

definition fault_of :: "fault + Processor \<Rightarrow> fault option" where
  "fault_of res = (case res of Inl f \<Rightarrow> Some f | Inr p \<Rightarrow> None)"

definition lfo_of :: "fault + Processor \<Rightarrow> nat \<Rightarrow> LfoCall list" where
  "lfo_of res i = (case res of Inl f \<Rightarrow> [] | Inr p \<Rightarrow> lfo p i)"

section \<open>Properties of the user interface\<close>

subsection \<open>Defaults after a failed load\<close>

lemma Init_no_image:
  assumes "storage s0 = None"
  shows "Init adc_pot s0 =
     s0\<lparr>mode := UI_MODE_SPLASH, animation_counter := 0, feat_mode := FEAT_MODE_FREE,
        random_waveform_index := (random_waveform_index s0)(0 := 0, 1 := 0, 2 := 0, 3 := 0),
        bank := (bank s0)(0 := BANK_CLASSIC, 1 := BANK_CLASSIC, 2 := BANK_CLASSIC,
                          3 := BANK_CLASSIC),
        pot_fine_value := (pot_fine_value s0)(0 := 32767, 1 := 32767, 2 := 32767, 3 := 32767),
        pot_phase_value := (pot_phase_value s0)(0 := 65535, 1 := 65535, 2 := 65535, 3 := 65535),
        pot_level_value := (pot_level_value s0)(0 := 65535, 1 := 65535, 2 := 65535, 3 := 65535),
        pot_atten_value := (pot_atten_value s0)(0 := 65535, 1 := 65535, 2 := 65535, 3 := 65535),
        pot_value := (pot_value s0)(0 := adc_pot 0, 1 := adc_pot 1, 2 := adc_pot 2,
                                    3 := adc_pot 3),
        pot_filtered_value := (pot_filtered_value s0)(0 := adc_pot 0, 1 := adc_pot 1,
                                    2 := adc_pot 2, 3 := adc_pot 3),
        pot_coarse_value := (pot_coarse_value s0)(0 := adc_pot 0, 1 := adc_pot 1,
                                    2 := adc_pot 2, 3 := adc_pot 3),
        catchup_state := (catchup_state s0)(0 := False, 1 := False, 2 := False, 3 := False)\<rparr>"
  using assms
  by (simp add: Init_def ParsimoniousLoad_def clearAllHiddenSettings_def clearZoomSettings_def
      UINT16_MAX_def Let_def)

text \<open>Claim C8. When the storage holds no valid image, \<open>Init\<close> sets the feature mode to
  Free, the bank of each of the four channels to Classic and its random-waveform index to 0,
  the fine pots to mid-scale \<open>UINT16_MAX / 2\<close> and the phase, level and attenuation pots to
  full scale \<open>UINT16_MAX\<close>; it then goes on as after a successful load: the pots are
  synchronised with the ADC, no channel is in catch-up and the interface starts in Splash.
  \<open>Init\<close> is a total function without a fault value.\<close>

theorem Init_failed_load_applies_defaults:
  assumes "storage s0 = None"
  shows "feat_mode (Init adc_pot s0) = FEAT_MODE_FREE
     \<and> (\<forall>i<4. bank (Init adc_pot s0) i = BANK_CLASSIC
            \<and> random_waveform_index (Init adc_pot s0) i = 0
            \<and> uint (pot_fine_value (Init adc_pot s0) i) = UINT16_MAX div 2
            \<and> uint (pot_phase_value (Init adc_pot s0) i) = UINT16_MAX
            \<and> uint (pot_level_value (Init adc_pot s0) i) = UINT16_MAX
            \<and> uint (pot_atten_value (Init adc_pot s0) i) = UINT16_MAX
            \<and> pot_value (Init adc_pot s0) i = adc_pot i
            \<and> pot_filtered_value (Init adc_pot s0) i = adc_pot i
            \<and> pot_coarse_value (Init adc_pot s0) i = adc_pot i
            \<and> \<not> catchup_state (Init adc_pot s0) i)
     \<and> mode (Init adc_pot s0) = UI_MODE_SPLASH
     \<and> animation_counter (Init adc_pot s0) = 0"
proof -
  have "\<forall>i<4. bank (Init adc_pot s0) i = BANK_CLASSIC
            \<and> random_waveform_index (Init adc_pot s0) i = 0
            \<and> uint (pot_fine_value (Init adc_pot s0) i) = UINT16_MAX div 2
            \<and> uint (pot_phase_value (Init adc_pot s0) i) = UINT16_MAX
            \<and> uint (pot_level_value (Init adc_pot s0) i) = UINT16_MAX
            \<and> uint (pot_atten_value (Init adc_pot s0) i) = UINT16_MAX
            \<and> pot_value (Init adc_pot s0) i = adc_pot i
            \<and> pot_filtered_value (Init adc_pot s0) i = adc_pot i
            \<and> pot_coarse_value (Init adc_pot s0) i = adc_pot i
            \<and> \<not> catchup_state (Init adc_pot s0) i"
  proof (intro allI impI)
    fix i :: nat assume "i < 4"
    then consider "i = 0" | "i = 1" | "i = 2" | "i = 3" by arith
    then show "bank (Init adc_pot s0) i = BANK_CLASSIC
            \<and> random_waveform_index (Init adc_pot s0) i = 0
            \<and> uint (pot_fine_value (Init adc_pot s0) i) = UINT16_MAX div 2
            \<and> uint (pot_phase_value (Init adc_pot s0) i) = UINT16_MAX
            \<and> uint (pot_level_value (Init adc_pot s0) i) = UINT16_MAX
            \<and> uint (pot_atten_value (Init adc_pot s0) i) = UINT16_MAX
            \<and> pot_value (Init adc_pot s0) i = adc_pot i
            \<and> pot_filtered_value (Init adc_pot s0) i = adc_pot i
            \<and> pot_coarse_value (Init adc_pot s0) i = adc_pot i
            \<and> \<not> catchup_state (Init adc_pot s0) i"
      by cases (simp_all add: Init_no_image [OF assms] UINT16_MAX_def)
  qed
  then show ?thesis
    by (simp add: Init_no_image [OF assms])
qed

theorem Init_failed_load_applies_defaults_witness:
  "storage ui_sample = None
   \<and> feat_mode (Init (\<lambda>_. 5) ui_sample) = FEAT_MODE_FREE
   \<and> bank (Init (\<lambda>_. 5) ui_sample) 3 = BANK_CLASSIC
   \<and> random_waveform_index (Init (\<lambda>_. 5) ui_sample) 3 = 0
   \<and> uint (pot_fine_value (Init (\<lambda>_. 5) ui_sample) 3) = 32767
   \<and> uint (pot_phase_value (Init (\<lambda>_. 5) ui_sample) 3) = 65535
   \<and> uint (pot_level_value (Init (\<lambda>_. 5) ui_sample) 3) = 65535
   \<and> uint (pot_atten_value (Init (\<lambda>_. 5) ui_sample) 3) = 65535
   \<and> mode (Init (\<lambda>_. 5) ui_sample) = UI_MODE_SPLASH"
proof -
  have h: "storage ui_sample = None" by (simp add: ui_sample_def)
  show ?thesis
    using h Init_failed_load_applies_defaults [OF h, of "\<lambda>_. 5"]
    by (simp add: UINT16_MAX_def)
qed

subsection \<open>Clearing the settings\<close>

lemma OnSwitchReleased_clear:
  assumes "control_id e = SWITCH_SELECT" "data e > kClearSettingsLongPressDuration"
  shows "OnSwitchReleased e s =
     ParsimoniousSave ((clearAllHiddenSettings s)\<lparr>animation_counter := 0, mode := UI_MODE_SPLASH\<rparr>)"
  using assms
  by (simp add: OnSwitchReleased_def SWITCH_SELECT_def SWITCH_SYNC_def SWITCH_WAV1_def
      SWITCH_WAV2_def)

lemma clearAllHiddenSettings_expand:
  "clearAllHiddenSettings s =
     s\<lparr>random_waveform_index := (random_waveform_index s)(0 := 0, 1 := 0, 2 := 0, 3 := 0),
       bank := (bank s)(0 := BANK_CLASSIC, 1 := BANK_CLASSIC, 2 := BANK_CLASSIC,
                        3 := BANK_CLASSIC),
       pot_fine_value := (pot_fine_value s)(0 := 32767, 1 := 32767, 2 := 32767, 3 := 32767),
       pot_phase_value := (pot_phase_value s)(0 := 65535, 1 := 65535, 2 := 65535, 3 := 65535),
       pot_level_value := (pot_level_value s)(0 := 65535, 1 := 65535, 2 := 65535, 3 := 65535),
       pot_atten_value := (pot_atten_value s)(0 := 65535, 1 := 65535, 2 := 65535, 3 := 65535)\<rparr>"
  by (simp add: clearAllHiddenSettings_def clearZoomSettings_def UINT16_MAX_def)

text \<open>What the saved block holds and what it leaves out: the phase values of channels 2 and
  3 are not in the image, and a load leaves them as they were in the loading object.\<close>

lemma settings_of_phase:
  "set_pot_phase_value (settings_of s) 0 = Some (pot_phase_value s 0)"
  "set_pot_phase_value (settings_of s) 2 = None"
  "set_pot_phase_value (settings_of s) 3 = None"
  "set_classic_waveform_index (settings_of s) = classic_waveform_index s"
  by (simp_all add: settings_of_def kPhaseValuesInBlock_def)

lemma load_leaves_phase_2_3:
  assumes "storage s = Some (settings_of t)" and "ParsimoniousLoad s = Some s'"
  shows "pot_phase_value s' 2 = pot_phase_value s 2"
    and "pot_phase_value s' 3 = pot_phase_value s 3"
    and "pot_level_value s' = pot_level_value t"
  using assms by (auto simp: ParsimoniousLoad_def settings_of_def kPhaseValuesInBlock_def)

text \<open>Claim C1, amended. From Normal, a release event of the select switch whose duration
  exceeds the clear-settings threshold of 4000 ms resets every channel's bank,
  random-waveform index and zoom settings (fine, phase, level, attenuation) to their
  defaults, saves the settings block and returns the interface to Splash. The feature mode
  is not reset: it keeps its value. The saved image holds the feature mode and every
  channel's bank, random-waveform index, fine, level and attenuation value as they are
  after the reset; nothing is stated about the phase values in it.\<close>

theorem clear_settings_release_keeps_feature_mode:
  assumes "mode s = UI_MODE_NORMAL"
    and "control_id e = SWITCH_SELECT"
    and "data e > kClearSettingsLongPressDuration"
  shows "kClearSettingsLongPressDuration = 4000
     \<and> feat_mode (OnSwitchReleased e s) = feat_mode s
     \<and> (\<forall>i<4. bank (OnSwitchReleased e s) i = BANK_CLASSIC
            \<and> random_waveform_index (OnSwitchReleased e s) i = 0
            \<and> uint (pot_fine_value (OnSwitchReleased e s) i) = UINT16_MAX div 2
            \<and> uint (pot_phase_value (OnSwitchReleased e s) i) = UINT16_MAX
            \<and> uint (pot_level_value (OnSwitchReleased e s) i) = UINT16_MAX
            \<and> uint (pot_atten_value (OnSwitchReleased e s) i) = UINT16_MAX)
     \<and> (\<exists>img. storage (OnSwitchReleased e s) = Some img
           \<and> set_feat_mode img = feat_mode s
           \<and> set_bank img = bank (OnSwitchReleased e s)
           \<and> set_random_waveform_index img = random_waveform_index (OnSwitchReleased e s)
           \<and> set_pot_fine_value img = pot_fine_value (OnSwitchReleased e s)
           \<and> set_pot_level_value img = pot_level_value (OnSwitchReleased e s)
           \<and> set_pot_atten_value img = pot_atten_value (OnSwitchReleased e s))
     \<and> mode (OnSwitchReleased e s) = UI_MODE_SPLASH
     \<and> animation_counter (OnSwitchReleased e s) = 0"
proof -
  note eq = OnSwitchReleased_clear [OF assms(2,3), of s]
  have "\<forall>i<4. bank (OnSwitchReleased e s) i = BANK_CLASSIC
            \<and> random_waveform_index (OnSwitchReleased e s) i = 0
            \<and> uint (pot_fine_value (OnSwitchReleased e s) i) = UINT16_MAX div 2
            \<and> uint (pot_phase_value (OnSwitchReleased e s) i) = UINT16_MAX
            \<and> uint (pot_level_value (OnSwitchReleased e s) i) = UINT16_MAX
            \<and> uint (pot_atten_value (OnSwitchReleased e s) i) = UINT16_MAX"
  proof (intro allI impI)
    fix i :: nat assume "i < 4"
    then consider "i = 0" | "i = 1" | "i = 2" | "i = 3" by arith
    then show "bank (OnSwitchReleased e s) i = BANK_CLASSIC
            \<and> random_waveform_index (OnSwitchReleased e s) i = 0
            \<and> uint (pot_fine_value (OnSwitchReleased e s) i) = UINT16_MAX div 2
            \<and> uint (pot_phase_value (OnSwitchReleased e s) i) = UINT16_MAX
            \<and> uint (pot_level_value (OnSwitchReleased e s) i) = UINT16_MAX
            \<and> uint (pot_atten_value (OnSwitchReleased e s) i) = UINT16_MAX"
      by cases
        (simp_all add: eq ParsimoniousSave_def clearAllHiddenSettings_expand UINT16_MAX_def)
  qed
  moreover have "feat_mode (OnSwitchReleased e s) = feat_mode s"
    by (simp add: eq ParsimoniousSave_def clearAllHiddenSettings_expand)
  moreover have "\<exists>img. storage (OnSwitchReleased e s) = Some img
           \<and> set_feat_mode img = feat_mode s
           \<and> set_bank img = bank (OnSwitchReleased e s)
           \<and> set_random_waveform_index img = random_waveform_index (OnSwitchReleased e s)
           \<and> set_pot_fine_value img = pot_fine_value (OnSwitchReleased e s)
           \<and> set_pot_level_value img = pot_level_value (OnSwitchReleased e s)
           \<and> set_pot_atten_value img = pot_atten_value (OnSwitchReleased e s)"
    by (simp add: eq ParsimoniousSave_def settings_of_def clearAllHiddenSettings_expand)
  moreover have "mode (OnSwitchReleased e s) = UI_MODE_SPLASH"
      "animation_counter (OnSwitchReleased e s) = 0"
    by (simp_all add: eq ParsimoniousSave_def)
  ultimately show ?thesis
    by (simp add: kClearSettingsLongPressDuration_def)
qed

theorem clear_settings_release_keeps_feature_mode_witness:
  "mode ui_sample = UI_MODE_NORMAL
   \<and> control_id (select_event 4001) = SWITCH_SELECT
   \<and> data (select_event 4001) > kClearSettingsLongPressDuration
   \<and> feat_mode (OnSwitchReleased (select_event 4001) ui_sample) = FEAT_MODE_QUAD
   \<and> bank (OnSwitchReleased (select_event 4001) ui_sample) 2 = BANK_CLASSIC
   \<and> random_waveform_index (OnSwitchReleased (select_event 4001) ui_sample) 2 = 0
   \<and> uint (pot_fine_value (OnSwitchReleased (select_event 4001) ui_sample) 2) = 32767
   \<and> uint (pot_phase_value (OnSwitchReleased (select_event 4001) ui_sample) 2) = 65535
   \<and> storage (OnSwitchReleased (select_event 4001) ui_sample) \<noteq> None
   \<and> mode (OnSwitchReleased (select_event 4001) ui_sample) = UI_MODE_SPLASH"
proof -
  have h: "mode ui_sample = UI_MODE_NORMAL" "control_id (select_event 4001) = SWITCH_SELECT"
    "data (select_event 4001) > kClearSettingsLongPressDuration"
    by (simp_all add: ui_sample_def select_event_def kClearSettingsLongPressDuration_def)
  have f: "feat_mode ui_sample = FEAT_MODE_QUAD" by (simp add: ui_sample_def)
  note t = clear_settings_release_keeps_feature_mode [OF h]
  from t have st: "storage (OnSwitchReleased (select_event 4001) ui_sample) \<noteq> None"
    by auto
  from t have rest: "feat_mode (OnSwitchReleased (select_event 4001) ui_sample)
        = feat_mode ui_sample"
    "bank (OnSwitchReleased (select_event 4001) ui_sample) 2 = BANK_CLASSIC"
    "random_waveform_index (OnSwitchReleased (select_event 4001) ui_sample) 2 = 0"
    "uint (pot_fine_value (OnSwitchReleased (select_event 4001) ui_sample) 2)
        = UINT16_MAX div 2"
    "uint (pot_phase_value (OnSwitchReleased (select_event 4001) ui_sample) 2) = UINT16_MAX"
    "mode (OnSwitchReleased (select_event 4001) ui_sample) = UI_MODE_SPLASH"
    by simp_all
  show ?thesis
    using h f st rest by (simp add: UINT16_MAX_def)
qed

text \<open>The claim as first stated also resets the feature mode to Free. In Quad it stays
  Quad.\<close>

theorem clear_settings_release_counterexample:
  "mode ui_sample = UI_MODE_NORMAL
   \<and> data (select_event 4001) > 4000
   \<and> feat_mode (OnSwitchReleased (select_event 4001) ui_sample) \<noteq> FEAT_MODE_FREE"
  by (simp add: OnSwitchReleased_def select_event_def ui_sample_def SWITCH_SELECT_def
      SWITCH_SYNC_def SWITCH_WAV1_def SWITCH_WAV2_def kClearSettingsLongPressDuration_def
      ParsimoniousSave_def clearAllHiddenSettings_def clearZoomSettings_def)

subsection \<open>Pot events in Zoom\<close>

text \<open>Claim C10. In Zoom, with a last-touched pot that is one of the four channels, a
  pot-changed event with control id \<open>k\<close> writes the event value to the last-touched
  channel's fine (\<open>k = 0\<close>), level (\<open>k = 1\<close>), attenuation (\<open>k = 2\<close>) or phase
  (\<open>k = 3\<close>) value and to nothing else: the coarse values, the catch-up flags, the banks,
  the waveform indices and the last-touched index are as before.\<close>

theorem OnPotChanged_zoom_frame:
  assumes "mode s = UI_MODE_ZOOM" and "last_touched_pot s < 4"
  shows "\<exists>s'. OnPotChanged e s = Inr s'
     \<and> pot_coarse_value s' = pot_coarse_value s
     \<and> catchup_state s' = catchup_state s
     \<and> bank s' = bank s
     \<and> classic_waveform_index s' = classic_waveform_index s
     \<and> random_waveform_index s' = random_waveform_index s
     \<and> last_touched_pot s' = last_touched_pot s
     \<and> pot_fine_value s' =
         (if control_id e = 0
          then (pot_fine_value s)(last_touched_pot s := word_of_int (data e))
          else pot_fine_value s)
     \<and> pot_level_value s' =
         (if control_id e = 1
          then (pot_level_value s)(last_touched_pot s := word_of_int (data e))
          else pot_level_value s)
     \<and> pot_atten_value s' =
         (if control_id e = 2
          then (pot_atten_value s)(last_touched_pot s := word_of_int (data e))
          else pot_atten_value s)
     \<and> pot_phase_value s' =
         (if control_id e = 3
          then (pot_phase_value s)(last_touched_pot s := word_of_int (data e))
          else pot_phase_value s)"
  using assms by (simp add: OnPotChanged_def)

theorem OnPotChanged_zoom_frame_witness:
  "mode (ui_sample\<lparr>mode := UI_MODE_ZOOM, last_touched_pot := 2\<rparr>) = UI_MODE_ZOOM
   \<and> last_touched_pot (ui_sample\<lparr>mode := UI_MODE_ZOOM, last_touched_pot := 2\<rparr>) < 4
   \<and> (\<exists>s'. OnPotChanged (pot_event 1 5000)
              (ui_sample\<lparr>mode := UI_MODE_ZOOM, last_touched_pot := 2\<rparr>) = Inr s'
        \<and> pot_coarse_value s' = pot_coarse_value ui_sample
        \<and> pot_fine_value s' = pot_fine_value ui_sample
        \<and> pot_level_value s' 2 = 5000
        \<and> pot_level_value s' 1 = 200)"
proof -
  have h: "mode (ui_sample\<lparr>mode := UI_MODE_ZOOM, last_touched_pot := 2\<rparr>) = UI_MODE_ZOOM"
    "last_touched_pot (ui_sample\<lparr>mode := UI_MODE_ZOOM, last_touched_pot := 2\<rparr>) < 4"
    by simp_all
  show ?thesis
    using OnPotChanged_zoom_frame [OF h, of "pot_event 1 5000"]
    by (auto simp: pot_event_def ui_sample_def)
qed

subsection \<open>Pot filtering and events\<close>

lemma filtered_next_range: "0 \<le> filtered_next f a \<and> filtered_next f a < 65536"
proof -
  have a: "uint f < 65536" "uint a < 65536"
    using uint_lt2p [of f] uint_lt2p [of a] by simp_all
  have b: "0 \<le> uint f" "0 \<le> uint a" by simp_all
  have c: "(2::int) ^ 5 = 32" by simp
  from a b show ?thesis unfolding filtered_next_def c by arith
qed

lemma uint_filtered_next [simp]:
  "uint (word_of_int (filtered_next f a) :: 16 word) = filtered_next f a"
  using filtered_next_range [of f a] by (simp add: uint_word_of_int)

lemma poll_pot_fields:
  "pot_filtered_value (poll_pot adc t j s)
     = (pot_filtered_value s)(j := word_of_int (filtered_next (pot_filtered_value s j) (adc j)))"
  "pot_value (poll_pot adc t j s)
     = (if moved t (filtered_next (pot_filtered_value s j) (adc j)) (pot_value s j)
        then (pot_value s)(j := word_of_int (filtered_next (pot_filtered_value s j) (adc j)))
        else pot_value s)"
  "queue (poll_pot adc t j s)
     = queue s @ (if moved t (filtered_next (pot_filtered_value s j) (adc j)) (pot_value s j)
        then [\<lparr>control_type = CONTROL_POT, control_id = j,
               data = filtered_next (pot_filtered_value s j) (adc j)\<rparr>]
        else [])"
  "mode (poll_pot adc t j s) = mode s"
  by (simp_all add: poll_pot_def Let_def AddEvent_def filtered_next_def moved_def)

lemma poll_switch_fields:
  "pot_filtered_value (poll_switch now j s) = pot_filtered_value s"
  "pot_value (poll_switch now j s) = pot_value s"
  "mode (poll_switch now j s) = mode s"
  by (simp_all add: poll_switch_def Let_def AddEvent_def)

lemma poll_switch_queue:
  "\<exists>evs. queue (poll_switch now j s) = queue s @ evs
       \<and> (\<forall>e\<in>set evs. control_type e = CONTROL_SWITCH)"
  by (simp add: poll_switch_def Let_def AddEvent_def)

lemma set_leds_fields:
  "pot_filtered_value (set_leds f s) = pot_filtered_value s"
  "pot_value (set_leds f s) = pot_value s"
  "queue (set_leds f s) = queue s"
  by (simp_all add: set_leds_def kNumLeds_def upt_rec)

lemma paint_fields:
  "pot_filtered_value (paint s) = pot_filtered_value s"
  "pot_value (paint s) = pot_value s"
  "queue (paint s) = queue s"
  by (simp_all add: paint_def Let_def set_leds_fields split: UiMode.splits)


lemma Poll_pots_queue:
  "\<exists>sw. (\<forall>e\<in>set sw. control_type e = CONTROL_SWITCH) \<and>
     queue (Poll inp s) = queue s @ sw
       @ concat (map (\<lambda>j. if moved (potMoveThreshold (mode s))
                                  (filtered_next (pot_filtered_value s j) (in_pot inp j))
                                  (pot_value s j)
                             then [\<lparr>control_type = CONTROL_POT, control_id = j,
                                    data = filtered_next (pot_filtered_value s j) (in_pot inp j)\<rparr>]
                             else []) [0, 1, 2, 3])"
proof -
  obtain sw where sw: "queue (poll_switch (in_milliseconds inp) 3 (s\<lparr>switches := in_switches inp\<rparr>))
       = queue s @ sw" "\<forall>e\<in>set sw. control_type e = CONTROL_SWITCH"
    using poll_switch_queue [of "in_milliseconds inp" 3 "s\<lparr>switches := in_switches inp\<rparr>"]
    by auto
  have "queue (Poll inp s) = queue s @ sw
       @ concat (map (\<lambda>j. if moved (potMoveThreshold (mode s))
                                  (filtered_next (pot_filtered_value s j) (in_pot inp j))
                                  (pot_value s j)
                             then [\<lparr>control_type = CONTROL_POT, control_id = j,
                                    data = filtered_next (pot_filtered_value s j) (in_pot inp j)\<rparr>]
                             else []) [0, 1, 2, 3])"
    by (simp add: Poll_def Let_def paint_fields poll_pot_fields poll_switch_fields sw
        SWITCH_SELECT_def kNumSwitches_def upt_rec)
  with sw show ?thesis by blast
qed

lemma Poll_pots_fields:
  "pot_filtered_value (Poll inp s) i =
     (if i < 4 then word_of_int (filtered_next (pot_filtered_value s i) (in_pot inp i))
      else pot_filtered_value s i)"
  "pot_value (Poll inp s) i =
     (if i < 4 \<and> moved (potMoveThreshold (mode s))
                     (filtered_next (pot_filtered_value s i) (in_pot inp i)) (pot_value s i)
      then word_of_int (filtered_next (pot_filtered_value s i) (in_pot inp i))
      else pot_value s i)"
proof -
  have c: "i < 4 \<longleftrightarrow> i = 0 \<or> i = 1 \<or> i = 2 \<or> i = 3" by arith
  show "pot_filtered_value (Poll inp s) i =
     (if i < 4 then word_of_int (filtered_next (pot_filtered_value s i) (in_pot inp i))
      else pot_filtered_value s i)"
    by (simp add: Poll_def Let_def paint_fields poll_pot_fields poll_switch_fields
        SWITCH_SELECT_def kNumSwitches_def upt_rec c)
  show "pot_value (Poll inp s) i =
     (if i < 4 \<and> moved (potMoveThreshold (mode s))
                     (filtered_next (pot_filtered_value s i) (in_pot inp i)) (pot_value s i)
      then word_of_int (filtered_next (pot_filtered_value s i) (in_pot inp i))
      else pot_value s i)"
    by (simp add: Poll_def Let_def paint_fields poll_pot_fields poll_switch_fields
        SWITCH_SELECT_def kNumSwitches_def upt_rec c)
qed


lemma moved_iff_abs: "moved t v c \<longleftrightarrow> \<bar>v - uint c\<bar> \<ge> t"
  unfolding moved_def by arith

text \<open>Claim C4. For every state and every input of \<open>Poll\<close> and every pot \<open>i\<close>: the
  filtered value becomes \<open>(31 * previous + new) / 32\<close>; a pot-changed event for \<open>i\<close> is
  among the events \<open>Poll\<close> queues if and only if that filtered value differs from the
  committed value by at least the threshold of the mode (256 in Normal, 1024 in Zoom, 2048
  in Random-Waveform-Select); the event carries the filtered value and the committed value
  then equals the filtered value; without an event the committed value is unchanged.\<close>

theorem Poll_pot_event_iff_moved:
  assumes "i < 4"
  shows "potMoveThreshold UI_MODE_NORMAL = 256
     \<and> potMoveThreshold UI_MODE_ZOOM = 1024
     \<and> potMoveThreshold UI_MODE_RANDOM_WAVEFORM_SELECT = 2048
     \<and> uint (pot_filtered_value (Poll inp s) i)
           = filtered_next (pot_filtered_value s i) (in_pot inp i)
     \<and> ((\<exists>e \<in> set (drop (length (queue s)) (queue (Poll inp s))).
             control_type e = CONTROL_POT \<and> control_id e = i)
          \<longleftrightarrow> \<bar>filtered_next (pot_filtered_value s i) (in_pot inp i) - uint (pot_value s i)\<bar>
                \<ge> potMoveThreshold (mode s))
     \<and> (\<forall>e \<in> set (drop (length (queue s)) (queue (Poll inp s))).
           control_type e = CONTROL_POT \<and> control_id e = i
           \<longrightarrow> data e = filtered_next (pot_filtered_value s i) (in_pot inp i)
               \<and> pot_value (Poll inp s) i = pot_filtered_value (Poll inp s) i)
     \<and> (\<not> (\<exists>e \<in> set (drop (length (queue s)) (queue (Poll inp s))).
             control_type e = CONTROL_POT \<and> control_id e = i)
          \<longrightarrow> pot_value (Poll inp s) i = pot_value s i)"
proof -
  let ?v = "\<lambda>j. filtered_next (pot_filtered_value s j) (in_pot inp j)"
  let ?m = "\<lambda>j. moved (potMoveThreshold (mode s)) (?v j) (pot_value s j)"
  let ?ev = "\<lambda>j. \<lparr>control_type = CONTROL_POT, control_id = j, data = ?v j\<rparr>"
  let ?new = "drop (length (queue s)) (queue (Poll inp s))"
  obtain sw where sw: "\<forall>e\<in>set sw. control_type e = CONTROL_SWITCH"
    and q: "queue (Poll inp s) = queue s @ sw
              @ concat (map (\<lambda>j. if ?m j then [?ev j] else []) [0, 1, 2, 3])"
    using Poll_pots_queue [of inp s] by blast
  have new: "?new = sw @ concat (map (\<lambda>j. if ?m j then [?ev j] else []) [0, 1, 2, 3])"
    by (simp add: q)
  have mem: "\<And>e. e \<in> set ?new \<and> control_type e = CONTROL_POT
               \<longleftrightarrow> (\<exists>j\<in>{0, 1, 2, 3}. ?m j \<and> e = ?ev j)"
    unfolding new using sw by auto
  have i: "i \<in> {0, 1, 2, 3}" using assms by auto
  have emitted: "(\<exists>e \<in> set ?new. control_type e = CONTROL_POT \<and> control_id e = i) \<longleftrightarrow> ?m i"
  proof
    assume "\<exists>e \<in> set ?new. control_type e = CONTROL_POT \<and> control_id e = i"
    then obtain e where e: "e \<in> set ?new \<and> control_type e = CONTROL_POT" "control_id e = i"
      by blast
    from e(1) obtain j where "?m j" "e = ?ev j" unfolding mem by blast
    with e(2) show "?m i" by simp
  next
    assume "?m i"
    with i have "?ev i \<in> set ?new \<and> control_type (?ev i) = CONTROL_POT"
      unfolding mem by blast
    then show "\<exists>e \<in> set ?new. control_type e = CONTROL_POT \<and> control_id e = i"
      by (intro bexI [of _ "?ev i"]) simp_all
  qed
  have data: "\<forall>e \<in> set ?new. control_type e = CONTROL_POT \<and> control_id e = i
                \<longrightarrow> data e = ?v i"
  proof (intro ballI impI)
    fix e assume "e \<in> set ?new" "control_type e = CONTROL_POT \<and> control_id e = i"
    then have "e \<in> set ?new \<and> control_type e = CONTROL_POT" "control_id e = i" by simp_all
    from this(1) obtain j where "e = ?ev j" unfolding mem by blast
    with \<open>control_id e = i\<close> show "data e = ?v i" by simp
  qed
  have thr: "potMoveThreshold UI_MODE_NORMAL = 256" "potMoveThreshold UI_MODE_ZOOM = 1024"
    "potMoveThreshold UI_MODE_RANDOM_WAVEFORM_SELECT = 2048"
    by (simp_all add: potMoveThreshold_def kPotMoveThreshold_def
        kPotMoveThresholdOnZoomMode_def kPotMoveThresholdOnRandomWaveformSelectMode_def)
  have filt: "uint (pot_filtered_value (Poll inp s) i) = ?v i"
    using assms by (simp add: Poll_pots_fields)
  have commit: "?m i \<Longrightarrow> pot_value (Poll inp s) i = pot_filtered_value (Poll inp s) i"
    using assms by (simp add: Poll_pots_fields)
  have keep: "\<not> ?m i \<Longrightarrow> pot_value (Poll inp s) i = pot_value s i"
    by (simp add: Poll_pots_fields)
  show ?thesis
    using thr filt data commit keep emitted
    unfolding moved_iff_abs [symmetric] by blast
qed

theorem Poll_pot_event_iff_moved_witness:
  "(2::nat) < 4
   \<and> uint (pot_filtered_value (Poll poll_sample ui_sample) 2) = 1000
   \<and> (\<exists>e \<in> set (drop (length (queue ui_sample)) (queue (Poll poll_sample ui_sample))).
         control_type e = CONTROL_POT \<and> control_id e = 2)
   \<and> \<bar>filtered_next (pot_filtered_value ui_sample 2) (in_pot poll_sample 2)
        - uint (pot_value ui_sample 2)\<bar> \<ge> potMoveThreshold (mode ui_sample)
   \<and> uint (pot_value (Poll poll_sample ui_sample) 2) = 1000"
proof -
  have h: "(2::nat) < 4" by simp
  have v: "filtered_next (pot_filtered_value ui_sample 2) (in_pot poll_sample 2) = 1000"
    by (simp add: filtered_next_def ui_sample_def poll_sample_def)
  have m: "\<bar>filtered_next (pot_filtered_value ui_sample 2) (in_pot poll_sample 2)
        - uint (pot_value ui_sample 2)\<bar> \<ge> potMoveThreshold (mode ui_sample)"
    unfolding v by (simp add: ui_sample_def potMoveThreshold_def kPotMoveThreshold_def)
  note t = Poll_pot_event_iff_moved [OF h, of poll_sample ui_sample]
  from t have e: "\<exists>e \<in> set (drop (length (queue ui_sample)) (queue (Poll poll_sample ui_sample))).
         control_type e = CONTROL_POT \<and> control_id e = 2"
    using m by blast
  from t e have c: "pot_value (Poll poll_sample ui_sample) 2
      = pot_filtered_value (Poll poll_sample ui_sample) 2" by blast
  from t have f: "uint (pot_filtered_value (Poll poll_sample ui_sample) 2) = 1000"
    unfolding v by blast
  show ?thesis using h e m c f by simp
qed

subsection \<open>Catch-up\<close>





text \<open>The events that take this transition: a short release of the select switch in Zoom
  or in Random-Waveform-Select, and a long one in Zoom.\<close>

lemma release_returns_to_normal:
  assumes "control_id e = SWITCH_SELECT"
    and "data e \<le> kLongPressDuration \<and> (mode s = UI_MODE_ZOOM \<or> mode s = UI_MODE_RANDOM_WAVEFORM_SELECT)
         \<or> kLongPressDuration < data e \<and> data e \<le> kVeryLongPressDuration \<and> mode s = UI_MODE_ZOOM"
  shows "OnSwitchReleased e s = gotoNormalModeWithCatchupAndSaving s"
  using assms
  by (auto simp: OnSwitchReleased_def SWITCH_SELECT_def SWITCH_SYNC_def SWITCH_WAV1_def
      SWITCH_WAV2_def kLongPressDuration_def kVeryLongPressDuration_def
      kClearSettingsLongPressDuration_def)







section \<open>Properties of the conversion functions\<close>

lemma sint16_range: "- 32768 \<le> sint (w :: 16 word) \<and> sint w \<le> 32767"
  using sint_ge [of w] sint_lt [of w] by simp

lemma sint8_range: "- 128 \<le> sint (w :: 8 word) \<and> sint w \<le> 127"
  using sint_ge [of w] sint_lt [of w] by simp

lemma scaled_fine_range: "- 3 \<le> scaled_fine f \<and> scaled_fine f \<le> 2"
proof -
  have "- 131075 \<le> 5 * (sint f + 6553)" "5 * (sint f + 6553) \<le> 196600"
    using sint16_range [of f] by simp_all
  then have "(- 131075 :: int) div 65536 \<le> (5 * (sint f + 6553)) div 65536"
    "(5 * (sint f + 6553)) div 65536 \<le> (196600 :: int) div 65536"
    by (intro zdiv_mono1; simp)+
  then show ?thesis by (simp add: scaled_fine_def)
qed

lemma to_int16_small: "- 32768 \<le> x \<Longrightarrow> x \<le> 32767 \<Longrightarrow> to_int16 x = x"
  by (simp add: to_int16_def)

lemma to_int8_range: "- 128 \<le> to_int8 x \<and> to_int8 x \<le> 127"
proof -
  have "0 \<le> (x + 128) mod 256" "(x + 128) mod 256 < 256"
    by simp_all
  then show ?thesis unfolding to_int8_def by linarith
qed

lemma to_int8_small: "- 128 \<le> x \<Longrightarrow> x \<le> 127 \<Longrightarrow> to_int8 x = x"
  by (simp add: to_int8_def)

lemma sdiv_consts: "INT16_MAX sdiv 5 = 6553" "INT16_MAX sdiv 20 = 1638"
  by (simp_all add: INT16_MAX_def signed_divide_int_def)

lemma dm_unfold:
  "AdcValuesToDividerMultiplier r pot fine0 cv =
     (let f = scaled_fine fine0; d = divide_multiply_lookup r pot cv;
          div1 = (if f > 1 then
                    (let x = to_int8 (d - f) in if x = 0 then - 2 else if x = - 1 then - 3 else x)
                  else if f = 1 then (let x = to_int8 (d - f) in if x = 0 then - 2 else x)
                  else if f < - 1 then (let x = to_int8 (d - f) in if x = 0 then 2 else x)
                  else if f = - 1 then to_int8 (d - f)
                  else d)
      in if div1 \<ge> - 1 then CONSTRAIN div1 1 64 else CONSTRAIN div1 (- 64) (- 2))"
proof -
  have f: "to_int16 ((5 * (sint fine0 + INT16_MAX sdiv 5)) div 2 ^ 16) = scaled_fine fine0"
    using scaled_fine_range [of fine0]
    by (simp add: sdiv_consts scaled_fine_def to_int16_small)
  have d: "sint (lut_scale_divide_multiply r
             (nat (CONSTRAIN (uint pot + sint cv) 0 UINT16_MAX div 2 ^ 8)))
           = divide_multiply_lookup r pot cv"
    by (simp add: divide_multiply_lookup_def CONSTRAIN_def UINT16_MAX_def)
  show ?thesis
    unfolding AdcValuesToDividerMultiplier_def Let_def f d by (rule refl)
qed

lemma dm_final:
  "\<exists>x. AdcValuesToDividerMultiplier r pot fine0 cv
         = (if x \<ge> - 1 then CONSTRAIN x 1 64 else CONSTRAIN x (- 64) (- 2))"
  unfolding AdcValuesToDividerMultiplier_def Let_def by (rule exI, rule refl)

lemma dm_range:
  "(1 \<le> AdcValuesToDividerMultiplier r pot fine0 cv
         \<and> AdcValuesToDividerMultiplier r pot fine0 cv \<le> 64)
       \<or> (- 64 \<le> AdcValuesToDividerMultiplier r pot fine0 cv
         \<and> AdcValuesToDividerMultiplier r pot fine0 cv \<le> - 2)"
proof -
  obtain x where x: "AdcValuesToDividerMultiplier r pot fine0 cv
         = (if x \<ge> - 1 then CONSTRAIN x 1 64 else CONSTRAIN x (- 64) (- 2))"
    using dm_final by blast
  show ?thesis unfolding x by (simp add: CONSTRAIN_def)
qed

lemma dm_at:
  assumes "divide_multiply_lookup r pot cv = d" and "scaled_fine fine0 = f"
  shows "AdcValuesToDividerMultiplier r pot fine0 cv =
     (let div1 = (if f > 1 then
                    (let x = to_int8 (d - f) in if x = 0 then - 2 else if x = - 1 then - 3 else x)
                  else if f = 1 then (let x = to_int8 (d - f) in if x = 0 then - 2 else x)
                  else if f < - 1 then (let x = to_int8 (d - f) in if x = 0 then 2 else x)
                  else if f = - 1 then to_int8 (d - f)
                  else d)
      in if div1 \<ge> - 1 then CONSTRAIN div1 1 64 else CONSTRAIN div1 (- 64) (- 2))"
  unfolding dm_unfold assms Let_def by (rule refl)

text \<open>Claim C3. \<open>AdcValuesToDividerMultiplier\<close> never returns 0 or -1. A table entry of 2
  with a scaled fine term of 2 gives -2; an entry of 1 with fine 1 gives -2; an entry of 1
  with fine 2 gives -3; an entry of -2 with fine -2 gives 2. The result always lies in
  \<open>[1, 64]\<close> (the branch of the final clamp for values from -1 upwards) or in
  \<open>[-64, -2]\<close> (the other branch).\<close>

theorem AdcValuesToDividerMultiplier_never_degenerate:
  "AdcValuesToDividerMultiplier r pot fine0 cv \<noteq> 0
   \<and> AdcValuesToDividerMultiplier r pot fine0 cv \<noteq> - 1
   \<and> (divide_multiply_lookup r pot cv = 2 \<and> scaled_fine fine0 = 2
        \<longrightarrow> AdcValuesToDividerMultiplier r pot fine0 cv = - 2)
   \<and> (divide_multiply_lookup r pot cv = 1 \<and> scaled_fine fine0 = 1
        \<longrightarrow> AdcValuesToDividerMultiplier r pot fine0 cv = - 2)
   \<and> (divide_multiply_lookup r pot cv = 1 \<and> scaled_fine fine0 = 2
        \<longrightarrow> AdcValuesToDividerMultiplier r pot fine0 cv = - 3)
   \<and> (divide_multiply_lookup r pot cv = - 2 \<and> scaled_fine fine0 = - 2
        \<longrightarrow> AdcValuesToDividerMultiplier r pot fine0 cv = 2)
   \<and> ((1 \<le> AdcValuesToDividerMultiplier r pot fine0 cv
         \<and> AdcValuesToDividerMultiplier r pot fine0 cv \<le> 64)
       \<or> (- 64 \<le> AdcValuesToDividerMultiplier r pot fine0 cv
         \<and> AdcValuesToDividerMultiplier r pot fine0 cv \<le> - 2))"
proof -
  note r = dm_range [of r pot fine0 cv]
  have c1: "divide_multiply_lookup r pot cv = 2 \<and> scaled_fine fine0 = 2
        \<longrightarrow> AdcValuesToDividerMultiplier r pot fine0 cv = - 2"
  proof
    assume a: "divide_multiply_lookup r pot cv = 2 \<and> scaled_fine fine0 = 2"
    show "AdcValuesToDividerMultiplier r pot fine0 cv = - 2"
      by (subst dm_at [of _ _ _ 2 _ 2]) (simp_all add: a to_int8_def CONSTRAIN_def)
  qed
  have c2: "divide_multiply_lookup r pot cv = 1 \<and> scaled_fine fine0 = 1
        \<longrightarrow> AdcValuesToDividerMultiplier r pot fine0 cv = - 2"
  proof
    assume a: "divide_multiply_lookup r pot cv = 1 \<and> scaled_fine fine0 = 1"
    show "AdcValuesToDividerMultiplier r pot fine0 cv = - 2"
      by (subst dm_at [of _ _ _ 1 _ 1]) (simp_all add: a to_int8_def CONSTRAIN_def)
  qed
  have c3: "divide_multiply_lookup r pot cv = 1 \<and> scaled_fine fine0 = 2
        \<longrightarrow> AdcValuesToDividerMultiplier r pot fine0 cv = - 3"
  proof
    assume a: "divide_multiply_lookup r pot cv = 1 \<and> scaled_fine fine0 = 2"
    show "AdcValuesToDividerMultiplier r pot fine0 cv = - 3"
      by (subst dm_at [of _ _ _ 1 _ 2]) (simp_all add: a to_int8_def CONSTRAIN_def)
  qed
  have c4: "divide_multiply_lookup r pot cv = - 2 \<and> scaled_fine fine0 = - 2
        \<longrightarrow> AdcValuesToDividerMultiplier r pot fine0 cv = 2"
  proof
    assume a: "divide_multiply_lookup r pot cv = - 2 \<and> scaled_fine fine0 = - 2"
    show "AdcValuesToDividerMultiplier r pot fine0 cv = 2"
      by (subst dm_at [of _ _ _ "- 2" _ "- 2"]) (simp_all add: a to_int8_def CONSTRAIN_def)
  qed
  from r have "AdcValuesToDividerMultiplier r pot fine0 cv \<noteq> 0"
    "AdcValuesToDividerMultiplier r pot fine0 cv \<noteq> - 1" by auto
  with r c1 c2 c3 c4 show ?thesis by blast
qed

theorem AdcValuesToDividerMultiplier_never_degenerate_witness:
  "divide_multiply_lookup resources_sample 0 0 = 2 \<and> scaled_fine 20000 = 2
   \<and> AdcValuesToDividerMultiplier resources_sample 0 20000 0 = - 2
   \<and> divide_multiply_lookup resources_sample 256 0 = 1 \<and> scaled_fine 10000 = 1
   \<and> AdcValuesToDividerMultiplier resources_sample 256 10000 0 = - 2
   \<and> AdcValuesToDividerMultiplier resources_sample 256 20000 0 = - 3
   \<and> divide_multiply_lookup resources_sample 512 0 = - 2 \<and> scaled_fine (- 20000) = - 2
   \<and> AdcValuesToDividerMultiplier resources_sample 512 (- 20000) 0 = 2"
proof -
  have l: "divide_multiply_lookup resources_sample 0 0 = 2"
    "divide_multiply_lookup resources_sample 256 0 = 1"
    "divide_multiply_lookup resources_sample 512 0 = - 2"
    by (simp_all add: divide_multiply_lookup_def resources_sample_def)
  have f: "scaled_fine 20000 = 2" "scaled_fine 10000 = 1" "scaled_fine (- 20000) = - 2"
    by (simp_all add: scaled_fine_def)
  show ?thesis
    using l f
      AdcValuesToDividerMultiplier_never_degenerate [of resources_sample 0 20000 0]
      AdcValuesToDividerMultiplier_never_degenerate [of resources_sample 256 10000 0]
      AdcValuesToDividerMultiplier_never_degenerate [of resources_sample 256 20000 0]
      AdcValuesToDividerMultiplier_never_degenerate [of resources_sample 512 "- 20000" 0]
    by simp
qed

section \<open>Properties of the processor\<close>

subsection \<open>Effects of the routines on the fields\<close>

lemma upt_channels:
  "[0..<kNumChannels] = [0, 1, 2, 3]" "[Suc 0..<kNumChannels] = [1, 2, 3]"
  "rev [0..<kNumChannels] = [3, 2, 1, 0]"
  by (simp_all add: kNumChannels_def upt_rec)

lemma call_lfo_fields:
  "lfo (call_lfo i c p) = (lfo p)(i := lfo p i @ [c])"
  "previous_feat_mode (call_lfo i c p) = previous_feat_mode p"
  "filtered_cv (call_lfo i c p) = filtered_cv p"
  "reset_trigger_armed (call_lfo i c p) = reset_trigger_armed p"
  "reset_triggered (call_lfo i c p) = reset_triggered p"
  "reset_subsample (call_lfo i c p) = reset_subsample p"
  "previous_reset (call_lfo i c p) = previous_reset p"
  "last_reset (call_lfo i c p) = last_reset p"
  "last_coarse (call_lfo i c p) = last_coarse p"
  "synced (call_lfo i c p) = synced p"
  "waveform_offset (call_lfo i c p) = waveform_offset p"
  "dac_sine (call_lfo i c p) = dac_sine p"
  "dac_asgn (call_lfo i c p) = dac_asgn p"
  by (simp_all add: call_lfo_def)

lemma quad_denominator_floor:
  "quad_denominator gain = max gain UINT16_MAX" "quad_denominator gain \<ge> 65535"
  by (simp_all add: quad_denominator_def UINT16_MAX_def)

lemma quad_denominator_nonzero: "quad_denominator gain \<noteq> 0"
  by (simp add: quad_denominator_def UINT16_MAX_def)

lemma output_channels_total:
  "\<exists>p'. output_channels r osc u shp chs acc p = Inr p'"
proof (induction chs arbitrary: acc p)
  case Nil
  then show ?case by simp
next
  case (Cons i "is")
  obtain a b g where acc: "acc = (a, b, g)" by (cases acc)
  show ?case
    unfolding acc by (simp add: Let_def quad_denominator_nonzero Cons.IH split: prod.splits)
qed

lemma output_channels_Cons:
  assumes "output_channels r osc u shp (i # is) acc p = Inr p'"
  shows "\<exists>acc' d1 d2. output_channels r osc u shp is acc'
            ((call_lfo i Step p)\<lparr>dac_sine := d1, dac_asgn := d2\<rparr>) = Inr p'"
proof -
  obtain a b g where acc: "acc = (a, b, g)" by (cases acc)
  show ?thesis
    using assms unfolding acc
    by (simp add: Let_def split: if_splits prod.splits) blast+
qed

lemma output_channels_fields:
  assumes "output_channels r osc u shp chs acc p = Inr p'" and "distinct chs"
  shows "waveform_offset p' = waveform_offset p
     \<and> reset_trigger_armed p' = reset_trigger_armed p
     \<and> previous_feat_mode p' = previous_feat_mode p
     \<and> previous_reset p' = previous_reset p
     \<and> lfo p' j = (if j \<in> set chs then lfo p j @ [Step] else lfo p j)"
  using assms
proof (induction chs arbitrary: acc p)
  case Nil
  then show ?case by simp
next
  case (Cons i "is")
  from output_channels_Cons [OF Cons.prems(1)] obtain acc' d1 d2
    where step: "output_channels r osc u shp is acc'
            ((call_lfo i Step p)\<lparr>dac_sine := d1, dac_asgn := d2\<rparr>) = Inr p'"
    by blast
  from Cons.prems(2) have d: "distinct is" "i \<notin> set is" by simp_all
  from Cons.IH [OF step d(1)] d(2) show ?case
    by (auto simp: call_lfo_fields)
qed


lemma SetFrequency_fields:
  "waveform_offset (SetFrequency r u n p) = waveform_offset p"
  "previous_feat_mode (SetFrequency r u n p) = previous_feat_mode p"
  "reset_triggered (SetFrequency r u n p) = reset_triggered p"
  "previous_reset (SetFrequency r u n p) = previous_reset p"
  "reset_trigger_armed (SetFrequency r u n p) =
     (if reset_triggered p n then (reset_trigger_armed p)(n := False)
      else reset_trigger_armed p)"
  "j \<noteq> n \<Longrightarrow> lfo (SetFrequency r u n p) j = lfo p j"
  by (simp_all add: SetFrequency_def Let_def call_lfo_fields)

lemma reset_inputs_to_master_fields:
  "waveform_offset (reset_inputs_to_master p) =
     (if reset_triggered p 3 then waveform_offset p + 1 else waveform_offset p)"
  "reset_trigger_armed (reset_inputs_to_master p) =
     (if reset_triggered p 3 then (reset_trigger_armed p)(3 := False)
      else reset_trigger_armed p)"
  "previous_feat_mode (reset_inputs_to_master p) = previous_feat_mode p"
  "reset_triggered (reset_inputs_to_master p) = reset_triggered p"
  "previous_reset (reset_inputs_to_master p) = previous_reset p"
  "j \<noteq> 0 \<Longrightarrow> lfo (reset_inputs_to_master p) j = lfo p j"
  by (simp_all add: reset_inputs_to_master_def Let_def call_lfo_fields)

lemma quad_channel_fields:
  "waveform_offset (quad_channel r u i p) = waveform_offset p"
  "reset_trigger_armed (quad_channel r u i p) = reset_trigger_armed p"
  "previous_feat_mode (quad_channel r u i p) = previous_feat_mode p"
  "reset_triggered (quad_channel r u i p) = reset_triggered p"
  "previous_reset (quad_channel r u i p) = previous_reset p"
  by (simp_all add: quad_channel_def Let_def call_lfo_fields)

lemma phase_channel_quadrature_fields:
  "lfo (phase_channel_quadrature i p) =
     (lfo p)(i := lfo p i @ [LinkTo 0, SetInitialPhase ((4 - int i) * 16383)])"
  by (simp add: phase_channel_quadrature_def call_lfo_fields kNumChannels_def UINT16_MAX_def)

text \<open>What one channel of the first loop does when it does not fault.\<close>

lemma condition_channel_Inr:
  assumes "condition_channel r u a i p = Inr p'"
  shows "waveform_offset p' = waveform_offset p"
    and "previous_feat_mode p' = previous_feat_mode p"
    and "reset_trigger_armed p' =
       (reset_trigger_armed p)(i := reset_trigger_armed p i
                                     \<or> sint (adc_reset a i) < kResetThresholdLow)"
    and "reset_triggered p' =
       (reset_triggered p)(i := sint (adc_reset a i) > kResetThresholdHigh
                                \<and> (reset_trigger_armed p i
                                     \<or> sint (adc_reset a i) < kResetThresholdLow))"
    and "previous_reset p' = (previous_reset p)(i := sint (adc_reset a i))"
    and "lfo p' =
       (if feat_mode u \<noteq> FEAT_MODE_QUAD
        then (lfo p)(i := lfo p i @ [SetLevel (AdcValuesToLevel r (pot_level_value u i) 0 0)])
        else lfo p)"
  using assms
  by (auto simp: condition_channel_def Let_def call_lfo_fields fun_upd_idem
      split: if_splits)

lemma condition_channels_Inr:
  assumes "condition_channels r u a chs p = Inr p'" and "distinct chs"
  shows "waveform_offset p' = waveform_offset p
     \<and> previous_feat_mode p' = previous_feat_mode p
     \<and> reset_trigger_armed p' j =
         (if j \<in> set chs
          then reset_trigger_armed p j \<or> sint (adc_reset a j) < kResetThresholdLow
          else reset_trigger_armed p j)
     \<and> reset_triggered p' j =
         (if j \<in> set chs
          then sint (adc_reset a j) > kResetThresholdHigh
               \<and> (reset_trigger_armed p j \<or> sint (adc_reset a j) < kResetThresholdLow)
          else reset_triggered p j)
     \<and> previous_reset p' j =
         (if j \<in> set chs then sint (adc_reset a j) else previous_reset p j)
     \<and> lfo p' j =
         (if j \<in> set chs \<and> feat_mode u \<noteq> FEAT_MODE_QUAD
          then lfo p j @ [SetLevel (AdcValuesToLevel r (pot_level_value u j) 0 0)]
          else lfo p j)"
  using assms
proof (induction chs arbitrary: p)
  case Nil
  then show ?case by simp
next
  case (Cons i "is")
  from Cons.prems(1) obtain p1 where p1: "condition_channel r u a i p = Inr p1"
    and rest: "condition_channels r u a is p1 = Inr p'"
    by (auto split: sum.splits)
  from Cons.prems(2) have d: "distinct is" "i \<notin> set is" by simp_all
  note c = condition_channel_Inr [OF p1]
  note ih = Cons.IH [OF rest d(1)]
  show ?case
  proof (cases "j = i")
    case True
    with ih d(2) show ?thesis by (simp add: c)
  next
    case False
    with ih show ?thesis by (simp add: c)
  qed
qed

lemma init_lfos_fields:
  "waveform_offset (fold (\<lambda>i q. call_lfo i LfoInit q) [0..<kNumChannels] p) = waveform_offset p"
  "previous_feat_mode (fold (\<lambda>i q. call_lfo i LfoInit q) [0..<kNumChannels] p)
     = previous_feat_mode p"
  "reset_trigger_armed (fold (\<lambda>i q. call_lfo i LfoInit q) [0..<kNumChannels] p)
     = reset_trigger_armed p"
  "reset_triggered (fold (\<lambda>i q. call_lfo i LfoInit q) [0..<kNumChannels] p)
     = reset_triggered p"
  "previous_reset (fold (\<lambda>i q. call_lfo i LfoInit q) [0..<kNumChannels] p) = previous_reset p"
  by (simp_all add: upt_channels call_lfo_fields)

lemma init_lfos_lfo:
  "lfo (fold (\<lambda>i q. call_lfo i LfoInit q) [0..<kNumChannels] p) j =
     (if j < 4 then lfo p j @ [LfoInit] else lfo p j)"
proof -
  have "j < 4 \<longleftrightarrow> j = 0 \<or> j = 1 \<or> j = 2 \<or> j = 3" by arith
  then show ?thesis by (auto simp: upt_channels call_lfo_fields)
qed

lemma route_quad_fields:
  assumes "feat_mode u = FEAT_MODE_QUAD"
  shows "waveform_offset (route r u p) =
           (if reset_triggered p 3 then waveform_offset p + 1 else waveform_offset p)"
    and "reset_trigger_armed (route r u p) 3 = (reset_trigger_armed p 3 \<and> \<not> reset_triggered p 3)"
    and "previous_feat_mode (route r u p) = previous_feat_mode p"
  using assms
  by (simp_all add: route_def Let_def upt_channels quad_channel_fields
      reset_inputs_to_master_fields SetFrequency_fields call_lfo_fields)

lemma route_phase_quadrature_lfo:
  assumes "feat_mode u = FEAT_MODE_PHASE"
    and "coarse u 1 > UINT16_MAX - 256" and "coarse u 2 > UINT16_MAX - 256"
    and "coarse u 3 > UINT16_MAX - 256"
    and "i = 1 \<or> i = 2 \<or> i = 3"
  shows "lfo (route r u p) i = lfo p i @ [LinkTo 0, SetInitialPhase ((4 - int i) * 16383)]"
  using assms
  by (auto simp: route_def Let_def upt_channels phase_channel_quadrature_fields
      reset_inputs_to_master_fields SetFrequency_fields)



lemma Process_Inr:
  assumes "mode u \<noteq> UI_MODE_SPLASH" and "Process r osc u a p = Inr p'"
  shows "\<exists>p2. condition_channels r u a [0, 1, 2, 3]
                 (if feat_mode u \<noteq> previous_feat_mode p
                  then (fold (\<lambda>i q. call_lfo i LfoInit q) [0..<kNumChannels] p)
                         \<lparr>previous_feat_mode := feat_mode u, waveform_offset := 0\<rparr>
                  else p) = Inr p2
            \<and> output_channels r osc u (channel_shape r u (route r u p2)) [3, 2, 1, 0] (0, 0, 0)
                 (route r u p2) = Inr p'"
proof -
  let ?p1 = "if feat_mode u \<noteq> previous_feat_mode p
             then (fold (\<lambda>i q. call_lfo i LfoInit q) [0..<kNumChannels] p)
                    \<lparr>previous_feat_mode := feat_mode u, waveform_offset := 0\<rparr>
             else p"
  have eq: "Process r osc u a p =
     (case condition_channels r u a [0, 1, 2, 3] ?p1 of
        Inl f \<Rightarrow> Inl f
      | Inr p2 \<Rightarrow> output_channels r osc u (channel_shape r u (route r u p2)) [3, 2, 1, 0]
                    (0, 0, 0) (route r u p2))"
  proof -
    have r: "rev [0, 1, 2, 3 :: nat] = [3, 2, 1, 0]" by simp
    show ?thesis
      using assms(1) unfolding Process_def Let_def upt_channels r by simp
  qed
  show ?thesis
  proof (cases "condition_channels r u a [0, 1, 2, 3] ?p1")
    case (Inl f)
    with assms(2) eq show ?thesis by simp
  next
    case (Inr p2)
    with assms(2) eq show ?thesis by simp
  qed
qed

subsection \<open>Quad normalisation\<close>

text \<open>Claim C9. In Quad mode the denominator of the output normalisation is the
  accumulated gain clamped from below to full scale, \<open>max gain 65535\<close>: it is at least
  65535 and never zero, also when the accumulated gain is zero; the output loop therefore
  never divides by zero, and each of its iterations writes the two accumulated sums divided
  by that denominator.\<close>

theorem quad_normalisation_denominator:
  assumes "feat_mode u = FEAT_MODE_QUAD"
  shows "quad_denominator gain = max gain 65535
     \<and> quad_denominator gain \<ge> 65535
     \<and> quad_denominator gain \<noteq> 0
     \<and> quad_denominator 0 = 65535
     \<and> (\<exists>p'. output_channels r osc u shp chs acc p = Inr p')
     \<and> output_channels r osc u shp (i # is) (sample1, sample2, gain) p =
         output_channels r osc u shp is
           (sample1 + sint (ComputeSampleShape osc (lfo p i @ [Step]) (SHAPE_SINE r)),
            sample2 + sint (ComputeSampleShape osc (lfo p i @ [Step]) (shp i)),
            gain + uint (current_level osc (lfo p i @ [Step])))
           ((call_lfo i Step p)
              \<lparr>dac_sine := (dac_sine p)
                 (i := (((sample1 + sint (ComputeSampleShape osc (lfo p i @ [Step]) (SHAPE_SINE r)))
                          * 2 ^ 13)
                        sdiv max (gain + uint (current_level osc (lfo p i @ [Step]))) 65535)
                       * 2 ^ 3),
               dac_asgn := (dac_asgn p)
                 (i := (((sample2 + sint (ComputeSampleShape osc (lfo p i @ [Step]) (shp i)))
                          * 2 ^ 13)
                        sdiv max (gain + uint (current_level osc (lfo p i @ [Step]))) 65535)
                       * 2 ^ 3)\<rparr>)"
proof -
  have step: "output_channels r osc u shp (i # is) (sample1, sample2, gain) p =
         output_channels r osc u shp is
           (sample1 + sint (ComputeSampleShape osc (lfo p i @ [Step]) (SHAPE_SINE r)),
            sample2 + sint (ComputeSampleShape osc (lfo p i @ [Step]) (shp i)),
            gain + uint (current_level osc (lfo p i @ [Step])))
           ((call_lfo i Step p)
              \<lparr>dac_sine := (dac_sine p)
                 (i := (((sample1 + sint (ComputeSampleShape osc (lfo p i @ [Step]) (SHAPE_SINE r)))
                          * 2 ^ 13)
                        sdiv max (gain + uint (current_level osc (lfo p i @ [Step]))) 65535)
                       * 2 ^ 3),
               dac_asgn := (dac_asgn p)
                 (i := (((sample2 + sint (ComputeSampleShape osc (lfo p i @ [Step]) (shp i)))
                          * 2 ^ 13)
                        sdiv max (gain + uint (current_level osc (lfo p i @ [Step]))) 65535)
                       * 2 ^ 3)\<rparr>)"
  proof -
    have m: "\<And>x::int. max x 65535 \<noteq> 0" by (simp add: max_def)
    show ?thesis
      using assms
      by (simp add: Let_def call_lfo_fields quad_denominator_floor(1) UINT16_MAX_def m)
  qed
  show ?thesis
    using step output_channels_total [of r osc u shp chs acc p]
      quad_denominator_floor [of gain] quad_denominator_nonzero [of gain]
    by (simp add: UINT16_MAX_def quad_denominator_def)
qed

theorem quad_normalisation_denominator_witness:
  "feat_mode ui_sample = FEAT_MODE_QUAD
   \<and> quad_denominator 0 = 65535
   \<and> uint (current_level osc_sample []) = 0
   \<and> \<not> isl (output_channels resources_sample osc_sample ui_sample (\<lambda>_. 0) [3, 2, 1, 0]
               (0, 0, 0) processor_sample)
   \<and> dac_sine (projr (output_channels resources_sample osc_sample ui_sample (\<lambda>_. 0) [3]
                        (0, 0, 0) processor_sample)) 3 = 96"
proof -
  have h: "feat_mode ui_sample = FEAT_MODE_QUAD" by (simp add: ui_sample_def)
  note t = quad_normalisation_denominator [OF h, of 0 resources_sample osc_sample "\<lambda>_. 0"
      "[3, 2, 1, 0]" "(0, 0, 0)" processor_sample 3 "[]" 0 0]
  from t obtain p' where "output_channels resources_sample osc_sample ui_sample (\<lambda>_. 0)
      [3, 2, 1, 0] (0, 0, 0) processor_sample = Inr p'" by blast
  then have a: "\<not> isl (output_channels resources_sample osc_sample ui_sample (\<lambda>_. 0)
      [3, 2, 1, 0] (0, 0, 0) processor_sample)" by simp
  have b: "uint (current_level osc_sample []) = 0" by (simp add: osc_sample_def)
  have c: "dac_sine (projr (output_channels resources_sample osc_sample ui_sample (\<lambda>_. 0) [3]
                        (0, 0, 0) processor_sample)) 3 = 96"
    by code_simp
  from t h a b c show ?thesis by simp
qed

subsection \<open>Phase mode with all pots at maximum\<close>

text \<open>Claim C2, amended. In Phase feature mode, when the coarse values of channels 1, 2
  and 3 are all above \<open>65535 - 256\<close>, a tick that completes issues on each oscillator \<open>i\<close>
  in \<open>{1, 2, 3}\<close>, after the level, exactly: link to oscillator 0, set the initial phase to
  \<open>(4 - i) * 16383\<close>, step. The factor is \<open>UINT16_MAX >> 2 = 16383\<close>, not 16384.\<close>

theorem phase_mode_quadrature_offsets:
  assumes "mode u \<noteq> UI_MODE_SPLASH" and "feat_mode u = FEAT_MODE_PHASE"
    and "coarse u 1 > UINT16_MAX - 256" and "coarse u 2 > UINT16_MAX - 256"
    and "coarse u 3 > UINT16_MAX - 256"
    and "i = 1 \<or> i = 2 \<or> i = 3"
    and "Process r osc u a p = Inr p'"
  shows "lfo p' i =
     lfo p i @ (if feat_mode u \<noteq> previous_feat_mode p then [LfoInit] else [])
       @ [SetLevel (AdcValuesToLevel r (pot_level_value u i) 0 0),
          LinkTo 0, SetInitialPhase ((4 - int i) * 16383), Step]"
proof -
  let ?p1 = "if feat_mode u \<noteq> previous_feat_mode p
             then (fold (\<lambda>i q. call_lfo i LfoInit q) [0..<kNumChannels] p)
                    \<lparr>previous_feat_mode := feat_mode u, waveform_offset := 0\<rparr>
             else p"
  from Process_Inr [OF assms(1,7)] obtain p2
    where c: "condition_channels r u a [0, 1, 2, 3] ?p1 = Inr p2"
      and out: "output_channels r osc u (channel_shape r u (route r u p2)) [3, 2, 1, 0]
                  (0, 0, 0) (route r u p2) = Inr p'"
    by blast
  have i4: "i < 4" "i \<in> set [0, 1, 2, 3]" "i \<in> set [3, 2, 1, 0]" using assms(6) by auto
  have p1: "lfo ?p1 i = lfo p i @ (if feat_mode u \<noteq> previous_feat_mode p then [LfoInit] else [])"
    using i4(1) by (simp add: init_lfos_lfo)
  have p2: "lfo p2 i = lfo ?p1 i @ [SetLevel (AdcValuesToLevel r (pot_level_value u i) 0 0)]"
    using condition_channels_Inr [OF c, of i] i4(2) assms(2) by simp
  have p3: "lfo (route r u p2) i
      = lfo p2 i @ [LinkTo 0, SetInitialPhase ((4 - int i) * 16383)]"
    by (rule route_phase_quadrature_lfo [OF assms(2,3,4,5,6)])
  have p4: "lfo p' i = lfo (route r u p2) i @ [Step]"
    using output_channels_fields [OF out, of i] i4(3) by simp
  show ?thesis
    unfolding p4 p3 p2 p1 by simp
qed

theorem phase_mode_quadrature_offsets_witness:
  "mode phase_ui_sample \<noteq> UI_MODE_SPLASH \<and> feat_mode phase_ui_sample = FEAT_MODE_PHASE
   \<and> coarse phase_ui_sample 1 > UINT16_MAX - 256
   \<and> coarse phase_ui_sample 2 > UINT16_MAX - 256
   \<and> coarse phase_ui_sample 3 > UINT16_MAX - 256
   \<and> \<not> isl (Process resources_sample osc_sample phase_ui_sample (reset_sample 3 0)
               processor_sample)
   \<and> lfo (projr (Process resources_sample osc_sample phase_ui_sample (reset_sample 3 0)
                   processor_sample)) 2
       = [LfoInit, SetLevel 0, LinkTo 0, SetInitialPhase 32766, Step]"
proof -
  let ?r1 = "Process resources_sample osc_sample phase_ui_sample (reset_sample 3 0)
               processor_sample"
  have h1: "mode phase_ui_sample \<noteq> UI_MODE_SPLASH"
    and h2: "feat_mode phase_ui_sample = FEAT_MODE_PHASE"
    by (simp_all add: phase_ui_sample_def ui_sample_def)
  have h3: "coarse phase_ui_sample 1 > UINT16_MAX - 256"
    "coarse phase_ui_sample 2 > UINT16_MAX - 256"
    "coarse phase_ui_sample 3 > UINT16_MAX - 256"
    by (simp_all add: phase_ui_sample_def coarse_def UINT16_MAX_def)
  have h6: "(2::nat) = 1 \<or> (2::nat) = 2 \<or> (2::nat) = 3" by simp
  have i1: "\<not> isl ?r1" by code_simp
  then have h7: "?r1 = Inr (projr ?r1)" by simp
  have l: "AdcValuesToLevel resources_sample (pot_level_value phase_ui_sample 2) 0 0 = 0"
    by code_simp
  have s: "lfo processor_sample 2 = []"
    "previous_feat_mode processor_sample = FEAT_MODE_QUAD"
    by (simp_all add: processor_sample_def)
  show ?thesis
    using phase_mode_quadrature_offsets [OF h1 h2 h3 h6 h7] h1 h2 h3 i1
    by (simp add: l s)
qed

text \<open>The claim as first stated has the initial phase \<open>(4 - i) * 16384\<close>. With all pots at
  65535, oscillator 1 gets 49149 and never 49152.\<close>

theorem phase_mode_quadrature_counterexample:
  "mode phase_ui_sample \<noteq> UI_MODE_SPLASH \<and> feat_mode phase_ui_sample = FEAT_MODE_PHASE
   \<and> coarse phase_ui_sample 1 = 65535 \<and> coarse phase_ui_sample 2 = 65535
   \<and> coarse phase_ui_sample 3 = 65535
   \<and> lfo_of (Process resources_sample osc_sample phase_ui_sample (reset_sample 3 0)
               processor_sample) 1
       = [LfoInit, SetLevel 0, LinkTo 0, SetInitialPhase 49149, Step]
   \<and> SetInitialPhase ((4 - 1) * 16384)
       \<notin> set (lfo_of (Process resources_sample osc_sample phase_ui_sample (reset_sample 3 0)
                        processor_sample) 1)"
  by code_simp

subsection \<open>Reset 4 in Quad mode\<close>

lemma Process_quad_fields:
  assumes "feat_mode u = FEAT_MODE_QUAD" and "mode u \<noteq> UI_MODE_SPLASH"
    and "Process r osc u a p = Inr p'"
  shows "previous_feat_mode p' = FEAT_MODE_QUAD"
    and "waveform_offset p' =
       (if previous_feat_mode p = FEAT_MODE_QUAD then waveform_offset p else 0)
       + (if sint (adc_reset a 3) > kResetThresholdHigh
             \<and> (reset_trigger_armed p 3 \<or> sint (adc_reset a 3) < kResetThresholdLow)
          then 1 else 0)"
    and "reset_trigger_armed p' 3 \<longleftrightarrow>
       (reset_trigger_armed p 3 \<or> sint (adc_reset a 3) < kResetThresholdLow)
       \<and> \<not> sint (adc_reset a 3) > kResetThresholdHigh"
proof -
  let ?p1 = "if feat_mode u \<noteq> previous_feat_mode p
             then (fold (\<lambda>i q. call_lfo i LfoInit q) [0..<kNumChannels] p)
                    \<lparr>previous_feat_mode := feat_mode u, waveform_offset := 0\<rparr>
             else p"
  from Process_Inr [OF assms(2,3)] obtain p2
    where c: "condition_channels r u a [0, 1, 2, 3] ?p1 = Inr p2"
      and out: "output_channels r osc u (channel_shape r u (route r u p2)) [3, 2, 1, 0]
                  (0, 0, 0) (route r u p2) = Inr p'"
    by blast
  have p1: "previous_feat_mode ?p1 = FEAT_MODE_QUAD"
    "waveform_offset ?p1 = (if previous_feat_mode p = FEAT_MODE_QUAD then waveform_offset p else 0)"
    "reset_trigger_armed ?p1 = reset_trigger_armed p"
    using assms(1) by (auto simp: init_lfos_fields)
  note c3 = condition_channels_Inr [OF c, of 3, simplified, unfolded p1]
  note o = output_channels_fields [OF out, of 0, simplified]
  note q = route_quad_fields [OF assms(1), of r p2]
  show "previous_feat_mode p' = FEAT_MODE_QUAD"
    using c3 o q by simp
  show "waveform_offset p' =
       (if previous_feat_mode p = FEAT_MODE_QUAD then waveform_offset p else 0)
       + (if sint (adc_reset a 3) > kResetThresholdHigh
             \<and> (reset_trigger_armed p 3 \<or> sint (adc_reset a 3) < kResetThresholdLow)
          then 1 else 0)"
    using c3 o q by simp
  show "reset_trigger_armed p' 3 \<longleftrightarrow>
       (reset_trigger_armed p 3 \<or> sint (adc_reset a 3) < kResetThresholdLow)
       \<and> \<not> sint (adc_reset a 3) > kResetThresholdHigh"
    using c3 o q by auto
qed

lemma run_quad_no_retrigger:
  assumes "previous_feat_mode p = FEAT_MODE_QUAD" and "\<not> reset_trigger_armed p 3"
    and "\<forall>t\<in>set ticks. feat_mode (fst t) = FEAT_MODE_QUAD
            \<and> sint (adc_reset (snd t) 3) \<ge> kResetThresholdLow"
    and "run r osc ticks p = Inr p'"
  shows "waveform_offset p' = waveform_offset p \<and> \<not> reset_trigger_armed p' 3"
  using assms
proof (induction ticks arbitrary: p)
  case Nil
  then show ?case by simp
next
  case (Cons t ticks)
  obtain u a where t: "t = (u, a)" by (cases t)
  from Cons.prems(4) obtain p1 where p1: "Process r osc u a p = Inr p1"
    and rest: "run r osc ticks p1 = Inr p'"
    unfolding t by (auto split: sum.splits)
  from Cons.prems(3) have u: "feat_mode u = FEAT_MODE_QUAD"
    and a: "sint (adc_reset a 3) \<ge> kResetThresholdLow"
    unfolding t by simp_all
  have step: "previous_feat_mode p1 = FEAT_MODE_QUAD \<and> \<not> reset_trigger_armed p1 3
      \<and> waveform_offset p1 = waveform_offset p"
  proof (cases "mode u = UI_MODE_SPLASH")
    case True
    with p1 have "p1 = p" by (simp add: Process_def)
    with Cons.prems(1,2) show ?thesis by simp
  next
    case False
    from Process_quad_fields [OF u False p1] Cons.prems(1,2) a show ?thesis by simp
  qed
  have "waveform_offset p' = waveform_offset p1 \<and> \<not> reset_trigger_armed p' 3"
    using step Cons.prems(3) rest by (intro Cons.IH) simp_all
  with step show ?case by simp
qed

text \<open>Claim C7. In Quad feature mode, a tick on which the reset trigger of channel 3 fires
  (input above 20000 while armed) leaves the waveform offset exactly 1 above its value
  before the trigger (the value at the start of the tick, or 0 when the tick is the first
  one in Quad, which resets the offset) and clears the arm flag of channel 3. Over any
  further ticks in Quad mode on which the reset input of channel 3 is never below 10000,
  the channel is not armed again and the waveform offset keeps that value.\<close>

theorem quad_reset4_advances_waveform_once:
  assumes "feat_mode u = FEAT_MODE_QUAD" and "mode u \<noteq> UI_MODE_SPLASH"
    and "reset_trigger_armed p 3"
    and "sint (adc_reset a 3) > kResetThresholdHigh"
    and "Process r osc u a p = Inr p1"
    and "\<forall>t\<in>set ticks. feat_mode (fst t) = FEAT_MODE_QUAD
            \<and> sint (adc_reset (snd t) 3) \<ge> kResetThresholdLow"
    and "run r osc ticks p1 = Inr p2"
  shows "kResetThresholdLow = 10000 \<and> kResetThresholdHigh = 20000
     \<and> waveform_offset p1 =
         (if previous_feat_mode p = FEAT_MODE_QUAD then waveform_offset p else 0) + 1
     \<and> \<not> reset_trigger_armed p1 3
     \<and> waveform_offset p2 = waveform_offset p1
     \<and> \<not> reset_trigger_armed p2 3"
proof -
  note f = Process_quad_fields [OF assms(1,2,5)]
  have one: "waveform_offset p1 =
         (if previous_feat_mode p = FEAT_MODE_QUAD then waveform_offset p else 0) + 1"
    "\<not> reset_trigger_armed p1 3"
    using f(2,3) assms(3,4) by simp_all
  from run_quad_no_retrigger [OF f(1) one(2) assms(6,7)] one show ?thesis
    by (simp add: kResetThresholdLow_def kResetThresholdHigh_def)
qed

theorem quad_reset4_advances_waveform_once_witness:
  "feat_mode ui_sample = FEAT_MODE_QUAD \<and> mode ui_sample \<noteq> UI_MODE_SPLASH
   \<and> reset_trigger_armed processor_sample 3
   \<and> sint (adc_reset (reset_sample 3 25000) 3) > kResetThresholdHigh
   \<and> \<not> isl (Process resources_sample osc_sample ui_sample (reset_sample 3 25000)
               processor_sample)
   \<and> \<not> isl (run resources_sample osc_sample
               [(ui_sample, reset_sample 3 25000), (ui_sample, reset_sample 3 12000)]
               (projr (Process resources_sample osc_sample ui_sample (reset_sample 3 25000)
                         processor_sample)))
   \<and> waveform_offset processor_sample = 5
   \<and> waveform_offset (projr (Process resources_sample osc_sample ui_sample
                                (reset_sample 3 25000) processor_sample)) = 6
   \<and> \<not> reset_trigger_armed (projr (Process resources_sample osc_sample ui_sample
                                (reset_sample 3 25000) processor_sample)) 3
   \<and> waveform_offset (projr (run resources_sample osc_sample
               [(ui_sample, reset_sample 3 25000), (ui_sample, reset_sample 3 12000)]
               (projr (Process resources_sample osc_sample ui_sample (reset_sample 3 25000)
                         processor_sample)))) = 6"
proof -
  let ?r1 = "Process resources_sample osc_sample ui_sample (reset_sample 3 25000)
               processor_sample"
  let ?ticks = "[(ui_sample, reset_sample 3 25000), (ui_sample, reset_sample 3 12000)]"
  let ?r2 = "run resources_sample osc_sample ?ticks (projr ?r1)"
  have h1: "feat_mode ui_sample = FEAT_MODE_QUAD" and h2: "mode ui_sample \<noteq> UI_MODE_SPLASH"
    by (simp_all add: ui_sample_def)
  have h3: "reset_trigger_armed processor_sample 3"
    and w: "waveform_offset processor_sample = 5"
    and pm: "previous_feat_mode processor_sample = FEAT_MODE_QUAD"
    by (simp_all add: processor_sample_def)
  have h4: "sint (adc_reset (reset_sample 3 25000) 3) > kResetThresholdHigh"
    by (simp add: reset_sample_def kResetThresholdHigh_def)
  have i1: "\<not> isl ?r1" by code_simp
  then have h5: "?r1 = Inr (projr ?r1)" by simp
  have h6: "\<forall>t\<in>set ?ticks. feat_mode (fst t) = FEAT_MODE_QUAD
            \<and> sint (adc_reset (snd t) 3) \<ge> kResetThresholdLow"
    by (simp add: ui_sample_def reset_sample_def kResetThresholdLow_def)
  have i2: "\<not> isl ?r2" by code_simp
  then have h7: "?r2 = Inr (projr ?r2)" by simp
  show ?thesis
    using quad_reset4_advances_waveform_once [OF h1 h2 h3 h4 h5 h6 h7] h1 h2 h3 h4 i1 i2 w pm
    by simp
qed

subsection \<open>Sub-sample division\<close>

text \<open>\<open>Process\<close> faults exactly when, outside Splash, some channel's trigger fires on a
  sample equal to the previous one; nothing else in the routine can fault.\<close>

lemma condition_channel_fault_iff:
  "condition_channel r u a i p = Inl f \<longleftrightarrow> f = DivisionByZero \<and> zero_divisor a p i"
  by (auto simp: condition_channel_def zero_divisor_def Let_def call_lfo_fields split: if_splits)

lemma zero_divisor_cong:
  assumes "reset_trigger_armed p' i = reset_trigger_armed p i"
    and "previous_reset p' i = previous_reset p i"
  shows "zero_divisor a p' i = zero_divisor a p i"
  using assms by (simp add: zero_divisor_def)

lemma condition_channels_fault_iff:
  assumes "distinct chs"
  shows "condition_channels r u a chs p = Inl f
     \<longleftrightarrow> f = DivisionByZero \<and> (\<exists>i\<in>set chs. zero_divisor a p i)"
  using assms
proof (induction chs arbitrary: p)
  case Nil
  then show ?case by simp
next
  case (Cons i "is")
  from Cons.prems have d: "distinct is" "i \<notin> set is" by simp_all
  show ?case
  proof (cases "condition_channel r u a i p")
    case (Inl g)
    then show ?thesis
      using condition_channel_fault_iff [of r u a i p g] by auto
  next
    case (Inr p1)
    then have nz: "\<not> zero_divisor a p i"
      using condition_channel_fault_iff [of r u a i p DivisionByZero] by simp
    have same: "\<And>j. j \<in> set is \<Longrightarrow> zero_divisor a p1 j = zero_divisor a p j"
    proof -
      fix j assume "j \<in> set is"
      with d(2) have "j \<noteq> i" by auto
      then show "zero_divisor a p1 j = zero_divisor a p j"
        by (intro zero_divisor_cong) (simp_all add: condition_channel_Inr [OF Inr])
    qed
    have "condition_channels r u a (i # is) p = condition_channels r u a is p1"
      using Inr by simp
    then show ?thesis
      using Cons.IH [OF d(1), of p1] nz same by auto
  qed
qed

lemma Process_fault_iff:
  "Process r osc u a p = Inl f \<longleftrightarrow>
     f = DivisionByZero \<and> mode u \<noteq> UI_MODE_SPLASH \<and> (\<exists>i<4. zero_divisor a p i)"
proof (cases "mode u = UI_MODE_SPLASH")
  case True
  then show ?thesis by (simp add: Process_def)
next
  case False
  let ?p1 = "if feat_mode u \<noteq> previous_feat_mode p
             then (fold (\<lambda>i q. call_lfo i LfoInit q) [0..<kNumChannels] p)
                    \<lparr>previous_feat_mode := feat_mode u, waveform_offset := 0\<rparr>
             else p"
  have z: "\<And>i. zero_divisor a ?p1 i = zero_divisor a p i"
    by (intro zero_divisor_cong) (simp_all add: init_lfos_fields)
  have four: "\<And>P. (\<exists>i\<in>set [0, 1, 2, 3 :: nat]. P i) \<longleftrightarrow> (\<exists>i<4. P i)"
  proof -
    fix P :: "nat \<Rightarrow> bool"
    have "\<And>i :: nat. i < 4 \<longleftrightarrow> i = 0 \<or> i = 1 \<or> i = 2 \<or> i = 3" by arith
    then show "(\<exists>i\<in>set [0, 1, 2, 3 :: nat]. P i) \<longleftrightarrow> (\<exists>i<4. P i)" by auto
  qed
  have c: "condition_channels r u a [0, 1, 2, 3] ?p1 = Inl f
     \<longleftrightarrow> f = DivisionByZero \<and> (\<exists>i<4. zero_divisor a p i)"
    using condition_channels_fault_iff [of "[0, 1, 2, 3]" r u a ?p1 f]
    unfolding z four by simp
  have r: "rev [0, 1, 2, 3 :: nat] = [3, 2, 1, 0]" by simp
  have eq: "Process r osc u a p =
     (case condition_channels r u a [0, 1, 2, 3] ?p1 of
        Inl f \<Rightarrow> Inl f
      | Inr p2 \<Rightarrow> output_channels r osc u (channel_shape r u (route r u p2)) [3, 2, 1, 0]
                    (0, 0, 0) (route r u p2))"
    using False unfolding Process_def Let_def upt_channels r by simp
  show ?thesis
  proof (cases "condition_channels r u a [0, 1, 2, 3] ?p1")
    case (Inl g)
    with c [symmetric] eq False show ?thesis
      using condition_channels_fault_iff [of "[0, 1, 2, 3]" r u a ?p1 g]
      unfolding z four by auto
  next
    case (Inr p2)
    obtain p' where "output_channels r osc u (channel_shape r u (route r u p2)) [3, 2, 1, 0]
                    (0, 0, 0) (route r u p2) = Inr p'"
      using output_channels_total by blast
    with Inr eq c show ?thesis by auto
  qed
qed

text \<open>Where the arm flag is cleared on the trigger (every channel in Free mode, channels 0
  and 3 in the other modes), a completed tick leaves an armed channel with a previous
  sample at or below the trigger threshold, so that its next trigger has a positive
  divisor. Runs that stay in Free mode from \<open>Init\<close> on therefore always complete.\<close>

lemma armed_below_trigger_no_zero_divisor:
  assumes "armed_below_trigger p i"
  shows "\<not> zero_divisor a p i"
  using assms
  by (auto simp: armed_below_trigger_def zero_divisor_def kResetThresholdLow_def
      kResetThresholdHigh_def)

lemma phase_channel_fields:
  "reset_trigger_armed (phase_channel_quadrature i p) = reset_trigger_armed p"
  "previous_reset (phase_channel_quadrature i p) = previous_reset p"
  "reset_triggered (phase_channel_quadrature i p) = reset_triggered p"
  "reset_trigger_armed (phase_channel_normal r u i p) = reset_trigger_armed p"
  "previous_reset (phase_channel_normal r u i p) = previous_reset p"
  "reset_triggered (phase_channel_normal r u i p) = reset_triggered p"
  "reset_trigger_armed (divide_channel r u i p) = reset_trigger_armed p"
  "previous_reset (divide_channel r u i p) = previous_reset p"
  "reset_triggered (divide_channel r u i p) = reset_triggered p"
  by (simp_all add: phase_channel_quadrature_def phase_channel_normal_def divide_channel_def
      Let_def call_lfo_fields)

lemma route_previous_reset: "previous_reset (route r u p) = previous_reset p"
  by (cases "feat_mode u")
    (simp_all add: route_def Let_def upt_channels SetFrequency_fields call_lfo_fields
      reset_inputs_to_master_fields quad_channel_fields phase_channel_fields)

lemma route_free_armed:
  assumes "feat_mode u = FEAT_MODE_FREE" and "i < 4"
  shows "reset_trigger_armed (route r u p) i
     \<longleftrightarrow> reset_trigger_armed p i \<and> \<not> reset_triggered p i"
proof -
  from assms(2) consider "i = 0" | "i = 1" | "i = 2" | "i = 3" by arith
  then show ?thesis
    using assms(1)
    by cases
      (simp_all add: route_def upt_channels SetFrequency_fields call_lfo_fields)
qed

lemma route_linked_armed:
  assumes "feat_mode u = FEAT_MODE_QUAD \<or> feat_mode u = FEAT_MODE_PHASE
           \<or> feat_mode u = FEAT_MODE_DIVIDE"
    and "i = 0 \<or> i = 3"
  shows "reset_trigger_armed (route r u p) i
     \<longleftrightarrow> reset_trigger_armed p i \<and> \<not> reset_triggered p i"
proof -
  have a: "[1..<kNumChannels] = [1, 2, 3]" by (simp add: kNumChannels_def upt_rec)
  from assms(1) consider (quad) "feat_mode u = FEAT_MODE_QUAD"
    | (phase) "feat_mode u = FEAT_MODE_PHASE" | (divide) "feat_mode u = FEAT_MODE_DIVIDE"
    by blast
  then show ?thesis
  proof cases
    case quad
    with assms(2) show ?thesis
      by (auto simp: route_def Let_def a upt_channels SetFrequency_fields call_lfo_fields
          reset_inputs_to_master_fields quad_channel_fields)
  next
    case phase
    with assms(2) show ?thesis
      by (auto simp: route_def Let_def a upt_channels SetFrequency_fields call_lfo_fields
          reset_inputs_to_master_fields phase_channel_fields)
  next
    case divide
    with assms(2) show ?thesis
      by (auto simp: route_def Let_def a upt_channels SetFrequency_fields call_lfo_fields
          reset_inputs_to_master_fields phase_channel_fields)
  qed
qed

lemma Process_armed_below_trigger:
  assumes "mode u \<noteq> UI_MODE_SPLASH" and "Process r osc u a p = Inr p'"
    and "feat_mode u = FEAT_MODE_FREE \<and> i < 4
         \<or> (feat_mode u = FEAT_MODE_QUAD \<or> feat_mode u = FEAT_MODE_PHASE
              \<or> feat_mode u = FEAT_MODE_DIVIDE) \<and> (i = 0 \<or> i = 3)"
  shows "armed_below_trigger p' i"
proof -
  let ?p1 = "if feat_mode u \<noteq> previous_feat_mode p
             then (fold (\<lambda>i q. call_lfo i LfoInit q) [0..<kNumChannels] p)
                    \<lparr>previous_feat_mode := feat_mode u, waveform_offset := 0\<rparr>
             else p"
  from Process_Inr [OF assms(1,2)] obtain p2
    where c: "condition_channels r u a [0, 1, 2, 3] ?p1 = Inr p2"
      and out: "output_channels r osc u (channel_shape r u (route r u p2)) [3, 2, 1, 0]
                  (0, 0, 0) (route r u p2) = Inr p'"
    by blast
  from assms(3) have i: "i \<in> set [0, 1, 2, 3]" by auto
  note c2 = condition_channels_Inr [OF c, of i]
  note o = output_channels_fields [OF out, of i]
  have armed: "reset_trigger_armed (route r u p2) i
     \<longleftrightarrow> reset_trigger_armed p2 i \<and> \<not> reset_triggered p2 i"
    using assms(3) route_free_armed [of u i r p2] route_linked_armed [of u i r p2] by blast
  have "reset_trigger_armed p' i \<longrightarrow> previous_reset p' i \<le> kResetThresholdHigh"
    using c2 o armed i by (auto simp: route_previous_reset)
  then show ?thesis by (simp add: armed_below_trigger_def)
qed

lemma Processor_Init_armed_below_trigger:
  assumes "i < 4"
  shows "armed_below_trigger (Processor_Init p0) i"
proof -
  from assms consider "i = 0" | "i = 1" | "i = 2" | "i = 3" by arith
  then show ?thesis
    by cases (simp_all add: armed_below_trigger_def Processor_Init_def upt_channels)
qed

lemma free_run_completes:
  assumes "\<forall>i<4. armed_below_trigger p i"
    and "\<forall>t\<in>set ticks. feat_mode (fst t) = FEAT_MODE_FREE"
  shows "\<exists>p'. run r osc ticks p = Inr p'"
  using assms
proof (induction ticks arbitrary: p)
  case Nil
  then show ?case by simp
next
  case (Cons t ticks)
  obtain u a where t: "t = (u, a)" by (cases t)
  from Cons.prems(2) have u: "feat_mode u = FEAT_MODE_FREE" unfolding t by simp
  have "\<not> (\<exists>f. Process r osc u a p = Inl f)"
    using Cons.prems(1) armed_below_trigger_no_zero_divisor
    unfolding Process_fault_iff by blast
  then obtain p1 where p1: "Process r osc u a p = Inr p1"
    by (cases "Process r osc u a p") auto
  have inv: "\<forall>i<4. armed_below_trigger p1 i"
  proof (cases "mode u = UI_MODE_SPLASH")
    case True
    with p1 have "p1 = p" by (simp add: Process_def)
    with Cons.prems(1) show ?thesis by simp
  next
    case False
    from Process_armed_below_trigger [OF False p1] u show ?thesis by blast
  qed
  from Cons.IH [OF inv] Cons.prems(2) obtain p' where "run r osc ticks p1 = Inr p'"
    by auto
  with p1 show ?case unfolding t by simp
qed

lemma free_run_from_Init_completes:
  assumes "\<forall>t\<in>set ticks. feat_mode (fst t) = FEAT_MODE_FREE"
  shows "\<exists>p'. run r osc ticks (Processor_Init p0) = Inr p'"
  using assms Processor_Init_armed_below_trigger free_run_completes by blast

text \<open>Claim C6 (on every tick on which a reset trigger fires, in every feature mode, the
  divisor \<open>currentSample - previousSample\<close> of the sub-sample offset is nonzero) fails on
  the routine. In Quad, Phase and Divide mode nothing clears the arm flag of channels 1 and
  2 after their trigger, so a reset input that is low once and then stays at one value
  above 20000 fires the trigger again on the next tick, with a current sample equal to the
  previous one: after \<open>Init\<close>, in Quad mode, the samples 5000, 25000, 25000 on channel 1
  make the third tick divide by \<open>25000 - 25000 = 0\<close>, while the first two ticks complete.\<close>

theorem subsample_division_by_zero:
  "fault_of (run resources_sample osc_sample
     [(ui_sample, reset_sample 1 5000), (ui_sample, reset_sample 1 25000),
      (ui_sample, reset_sample 1 25000)]
     (Processor_Init processor_sample)) = Some DivisionByZero
   \<and> fault_of (run resources_sample osc_sample
     [(ui_sample, reset_sample 1 5000), (ui_sample, reset_sample 1 25000)]
     (Processor_Init processor_sample)) = None"
  by code_simp

end
